theory Spec2Isabelle
  imports Complex_Main
begin

section \<open>JavaScript values and errors\<close>

text \<open>
  The integration agent is JavaScript: its values are untyped. A value of the program is
  modelled by \<open>jsval\<close>; numbers are restricted to integers (every number the modelled code
  computes with is a counter, a length or a millisecond clock reading) and strings are ASCII
  character lists. Objects are association lists in the order \<open>Object.keys\<close> reports;
  a key added to an object goes last, which is JavaScript's order for keys that are not
  array indices.
\<close>

datatype jsval =
    Undefined
  | Null
  | JBool bool
  | JNum int
  | JStr string
  | JArr "jsval list"
  | JObj "(string \<times> jsval) list"

text \<open>A thrown \<open>Error\<close>: the name of its constructor and its message.\<close>

datatype error = Error (ctor: string) (message: string)

definition TypeError :: "string \<Rightarrow> error" where
  "TypeError msg = Error ''TypeError'' msg"

text \<open>Truthiness, as \<open>if (v)\<close>, \<open>!v\<close> and \<open>v || w\<close> test it.\<close>

fun truthy :: "jsval \<Rightarrow> bool" where
  "truthy Undefined = False"
| "truthy Null = False"
| "truthy (JBool b) = b"
| "truthy (JNum n) = (n \<noteq> 0)"
| "truthy (JStr s) = (s \<noteq> [])"
| "truthy (JArr xs) = True"
| "truthy (JObj kvs) = True"

definition nullish :: "jsval \<Rightarrow> bool" where
  "nullish v = (v = Undefined \<or> v = Null)"

text \<open>Decimal rendering of numbers, as template literals and index keys need it.\<close>

definition digit_char :: "nat \<Rightarrow> char" where
  "digit_char d = ''0123456789'' ! (d mod 10)"

fun decimal :: "nat \<Rightarrow> string" where
  "decimal n = (if n < 10 then [digit_char n] else decimal (n div 10) @ [digit_char n])"

declare decimal.simps [simp del]

definition show_int :: "int \<Rightarrow> string" where
  "show_int i = (if i < 0 then CHR ''-'' # decimal (nat (- i)) else decimal (nat i))"

text \<open>
  The own enumerable properties of a value, in \<open>Object.entries\<close> order: the fields of an
  object, the indexed elements of an array, the indexed characters of a string.
\<close>

fun entries :: "jsval \<Rightarrow> (string \<times> jsval) list" where
  "entries (JObj kvs) = kvs"
| "entries (JArr xs) = zip (map decimal [0..<length xs]) xs"
| "entries (JStr s) = zip (map decimal [0..<length s]) (map (\<lambda>c. JStr [c]) s)"
| "entries v = []"

definition own_keys :: "jsval \<Rightarrow> string list" where
  "own_keys v = map fst (entries v)"

text \<open>
  Property read \<open>v[k]\<close> on a value that is neither \<open>undefined\<close> nor \<open>null\<close>; the
  \<open>length\<close> of arrays and strings is the one inherited property the code reads.
\<close>

definition get :: "jsval \<Rightarrow> string \<Rightarrow> jsval" where
  "get v k =
     (case map_of (entries v) k of
        Some x \<Rightarrow> x
      | None \<Rightarrow>
          (if k = ''length'' then
             (case v of JArr xs \<Rightarrow> JNum (int (length xs))
                      | JStr s \<Rightarrow> JNum (int (length s))
                      | _ \<Rightarrow> Undefined)
           else Undefined))"

text \<open>\<open>v.k\<close>: a TypeError on \<open>undefined\<close> and \<open>null\<close>.\<close>

definition read_prop :: "jsval \<Rightarrow> string \<Rightarrow> error + jsval" where
  "read_prop v k =
     (if nullish v then Inl (TypeError (''Cannot read properties of undefined: '' @ k))
      else Inr (get v k))"

text \<open>\<open>v?.k\<close>: \<open>undefined\<close> on \<open>undefined\<close> and \<open>null\<close>.\<close>

definition opt_get :: "jsval \<Rightarrow> string \<Rightarrow> jsval" where
  "opt_get v k = (if nullish v then Undefined else get v k)"

text \<open>\<open>a || b\<close> on values already computed.\<close>

definition or_else :: "jsval \<Rightarrow> jsval \<Rightarrow> jsval" where
  "or_else a b = (if truthy a then a else b)"

text \<open>
  \<open>Map.prototype.set\<close> and property assignment on an association list: an existing key
  keeps its position and takes the new value, a new key goes to the end.
\<close>

fun map_set :: "'k \<Rightarrow> 'v \<Rightarrow> ('k \<times> 'v) list \<Rightarrow> ('k \<times> 'v) list" where
  "map_set k v [] = [(k, v)]"
| "map_set k v (p # ps) = (if fst p = k then (k, v) # ps else p # map_set k v ps)"

section \<open>MetricsCollector\<close>

text \<open>
  \<open>this.metrics\<close> is an object whose fields \<open>integrations\<close>, \<open>performance\<close>, \<open>errors\<close>,
  \<open>api_calls\<close> and \<open>resources\<close> hold references to further objects, and \<open>getMetrics\<close>
  hands those references out. The nested objects therefore live in an explicit store, and
  \<open>this.metrics\<close> is a record of addresses into it.
\<close>

type_synonym addr = nat

record integrations_obj =
  total :: int
  success :: int
  failed :: int
  in_progress :: int

text \<open>\<open>min_duration\<close> starts as \<open>Infinity\<close>, which is \<open>None\<close> here.\<close>

record performance_obj =
  total_duration :: int
  avg_duration :: real
  min_duration :: "int option"
  max_duration :: int

record resources_obj =
  memory_usage :: int
  cpu_usage :: int

record store =
  integrations_at :: "addr \<Rightarrow> integrations_obj"
  performance_at :: "addr \<Rightarrow> performance_obj"
  counts_at :: "addr \<Rightarrow> (string \<times> int) list"
  resources_at :: "addr \<Rightarrow> resources_obj"
  next_addr :: addr

record metrics_obj =
  integrations :: addr
  performance :: addr
  errors :: addr
  api_calls :: addr
  resources :: addr

record collector =
  heap :: store
  metrics :: metrics_obj
  currentIntegrations :: "string list"

definition zero_integrations :: integrations_obj where
  "zero_integrations = \<lparr>total = 0, success = 0, failed = 0, in_progress = 0\<rparr>"

definition zero_performance :: performance_obj where
  "zero_performance =
     \<lparr>total_duration = 0, avg_duration = 0, min_duration = None, max_duration = 0\<rparr>"

definition zero_resources :: resources_obj where
  "zero_resources = \<lparr>memory_usage = 0, cpu_usage = 0\<rparr>"

text \<open>
  The object literal of the constructor and of \<open>reset\<close>: five fresh nested objects and the
  top-level object that refers to them.
\<close>

definition alloc_metrics :: "store \<Rightarrow> metrics_obj \<times> store" where
  "alloc_metrics h =
     (let a = next_addr h in
      (\<lparr>integrations = a, performance = a + 1, errors = a + 2, api_calls = a + 3,
        resources = a + 4\<rparr>,
       h\<lparr>integrations_at := (integrations_at h)(a := zero_integrations),
         performance_at := (performance_at h)(a + 1 := zero_performance),
         counts_at := (counts_at h)(a + 2 := [], a + 3 := []),
         resources_at := (resources_at h)(a + 4 := zero_resources),
         next_addr := a + 5\<rparr>))"

definition empty_store :: store where
  "empty_store =
     \<lparr>integrations_at = (\<lambda>_. zero_integrations), performance_at = (\<lambda>_. zero_performance),
      counts_at = (\<lambda>_. []), resources_at = (\<lambda>_. zero_resources), next_addr = 0\<rparr>"

definition new_collector :: collector where
  "new_collector =
     (let (m, h) = alloc_metrics empty_store in
      \<lparr>heap = h, metrics = m, currentIntegrations = []\<rparr>)"

text \<open>Reading and writing \<open>this.metrics.integrations\<close> and \<open>this.metrics.performance\<close>.\<close>

definition the_integrations :: "collector \<Rightarrow> integrations_obj" where
  "the_integrations c = integrations_at (heap c) (integrations (metrics c))"

definition the_performance :: "collector \<Rightarrow> performance_obj" where
  "the_performance c = performance_at (heap c) (performance (metrics c))"

definition the_errors :: "collector \<Rightarrow> (string \<times> int) list" where
  "the_errors c = counts_at (heap c) (errors (metrics c))"

definition put_integrations :: "addr \<Rightarrow> integrations_obj \<Rightarrow> collector \<Rightarrow> collector" where
  "put_integrations a v c =
     c\<lparr>heap := (heap c)\<lparr>integrations_at := (integrations_at (heap c))(a := v)\<rparr>\<rparr>"

definition put_performance :: "addr \<Rightarrow> performance_obj \<Rightarrow> collector \<Rightarrow> collector" where
  "put_performance a v c =
     c\<lparr>heap := (heap c)\<lparr>performance_at := (performance_at (heap c))(a := v)\<rparr>\<rparr>"

definition put_counts :: "addr \<Rightarrow> (string \<times> int) list \<Rightarrow> collector \<Rightarrow> collector" where
  "put_counts a v c =
     c\<lparr>heap := (heap c)\<lparr>counts_at := (counts_at (heap c))(a := v)\<rparr>\<rparr>"

text \<open>A JavaScript \<open>Set\<close> keeps insertion order and ignores a value it already holds.\<close>

definition set_add :: "'a \<Rightarrow> 'a list \<Rightarrow> 'a list" where
  "set_add x xs = (if x \<in> set xs then xs else xs @ [x])"

text \<open>
  \<open>startIntegration(integrationId, metadata)\<close>; \<open>now\<close> is the reading of \<open>Date.now()\<close>
  and an absent or empty \<open>integrationId\<close> is falsy. The \<open>metadata\<close> only goes into a
  local object that is dropped. The Prometheus client is an optional outside library and
  its gauges are not modelled.
\<close>

definition startIntegration ::
  "string option \<Rightarrow> jsval \<Rightarrow> int \<Rightarrow> collector \<Rightarrow> string \<times> collector" where
  "startIntegration integrationId metadata now c =
     (let ident = (case integrationId of
                     None \<Rightarrow> ''integration-'' @ show_int now
                   | Some s \<Rightarrow> if s \<noteq> [] then s else ''integration-'' @ show_int now);
          c1 = c\<lparr>currentIntegrations := set_add ident (currentIntegrations c)\<rparr>;
          i = the_integrations c1
      in (ident, put_integrations (integrations (metrics c1)) (i\<lparr>in_progress := in_progress i + 1\<rparr>) c1))"

definition updateDurationMetrics :: "int \<Rightarrow> collector \<Rightarrow> collector" where
  "updateDurationMetrics duration c =
     (let p = the_performance c;
          p1 = p\<lparr>total_duration := total_duration p + duration\<rparr>;
          p2 = p1\<lparr>min_duration :=
                  (case min_duration p1 of None \<Rightarrow> Some duration
                                         | Some m \<Rightarrow> Some (min m duration))\<rparr>;
          p3 = p2\<lparr>max_duration := max (max_duration p2) duration\<rparr>;
          n = total (the_integrations c);
          p4 = (if n > 0 then p3\<lparr>avg_duration := real_of_int (total_duration p3) / real_of_int n\<rparr>
                else p3)
      in put_performance (performance (metrics c)) p4 c)"

definition recordSuccess :: "int \<Rightarrow> collector \<Rightarrow> collector" where
  "recordSuccess duration c =
     (let i = the_integrations c;
          i1 = i\<lparr>success := success i + 1\<rparr>;
          i2 = i1\<lparr>total := total i1 + 1\<rparr>;
          i3 = i2\<lparr>in_progress := max 0 (in_progress i2 - 1)\<rparr>
      in updateDurationMetrics duration (put_integrations (integrations (metrics c)) i3 c))"

definition errorType :: "error \<Rightarrow> string" where
  "errorType e = (if ctor e \<noteq> [] then ctor e else ''UnknownError'')"

definition recordFailure :: "int \<Rightarrow> error \<Rightarrow> collector \<Rightarrow> collector" where
  "recordFailure duration e c =
     (let i = the_integrations c;
          i1 = i\<lparr>failed := failed i + 1\<rparr>;
          i2 = i1\<lparr>total := total i1 + 1\<rparr>;
          i3 = i2\<lparr>in_progress := max 0 (in_progress i2 - 1)\<rparr>;
          c1 = updateDurationMetrics duration (put_integrations (integrations (metrics c)) i3 c);
          errs = the_errors c1;
          n = (case map_of errs (errorType e) of None \<Rightarrow> 0 | Some k \<Rightarrow> k)
      in put_counts (errors (metrics c1)) (map_set (errorType e) (n + 1) errs) c1)"

text \<open>\<open>reset\<close> builds a new \<open>this.metrics\<close> out of new nested objects.\<close>

definition reset :: "collector \<Rightarrow> collector" where
  "reset c =
     (let (m, h) = alloc_metrics (heap c) in
      c\<lparr>heap := h, metrics := m, currentIntegrations := []\<rparr>)"

text \<open>The calls a run makes on the collector, and a sequence of them applied in order.\<close>

datatype tracker_call =
    StartIntegration "string option" jsval int
  | RecordSuccess int
  | RecordFailure int error

fun tracker_step :: "collector \<Rightarrow> tracker_call \<Rightarrow> collector" where
  "tracker_step c (StartIntegration ident md now) = snd (startIntegration ident md now c)"
| "tracker_step c (RecordSuccess d) = recordSuccess d c"
| "tracker_step c (RecordFailure d e) = recordFailure d e c"

definition tracker_run :: "tracker_call list \<Rightarrow> collector \<Rightarrow> collector" where
  "tracker_run calls c = foldl tracker_step c calls"

fun is_start :: "tracker_call \<Rightarrow> bool" where
  "is_start (StartIntegration _ _ _) = True"
| "is_start _ = False"

text \<open>
  A sequence of calls comes from runs when every \<open>recordSuccess\<close> or \<open>recordFailure\<close>
  completes a run that was started before it and has not completed yet; \<open>n\<close> counts the
  runs open so far.
\<close>

fun completes_started_runs :: "nat \<Rightarrow> tracker_call list \<Rightarrow> bool" where
  "completes_started_runs n [] = True"
| "completes_started_runs n (c # cs) =
     (if is_start c then completes_started_runs (Suc n) cs
      else (n > 0 \<and> completes_started_runs (n - 1) cs))"

definition started :: "tracker_call list \<Rightarrow> nat" where
  "started calls = length (filter is_start calls)"

definition completed :: "tracker_call list \<Rightarrow> nat" where
  "completed calls = length (filter (\<lambda>c. \<not> is_start c) calls)"

text \<open>
  \<open>getMetrics()\<close> returns \<open>{...this.metrics, timestamp, uptime}\<close>: a new top-level object
  whose first five fields are copied from \<open>this.metrics\<close>, that is, the same references.
  \<open>stamp\<close> and \<open>up\<close> are the readings of the clock and of \<open>process.uptime\<close>.
\<close>

record snapshot = metrics_obj +
  timestamp :: string
  uptime :: int

definition getMetrics :: "string \<Rightarrow> int \<Rightarrow> collector \<Rightarrow> snapshot" where
  "getMetrics stamp up c =
     metrics_obj.extend (metrics c) \<lparr>timestamp = stamp, uptime = up\<rparr>"

text \<open>
  What a caller holding a snapshot can do with it: read \<open>snap.integrations\<close>, and assign
  \<open>snap.integrations.total = v\<close>. Both go through the reference the snapshot holds.
\<close>

definition snapshot_integrations :: "snapshot \<Rightarrow> collector \<Rightarrow> integrations_obj" where
  "snapshot_integrations snap c = integrations_at (heap c) (integrations snap)"

definition snapshot_assign_total :: "snapshot \<Rightarrow> int \<Rightarrow> collector \<Rightarrow> collector" where
  "snapshot_assign_total snap v c =
     put_integrations (integrations snap)
       ((integrations_at (heap c) (integrations snap))\<lparr>total := v\<rparr>) c"

section \<open>Strings\<close>

text \<open>
  \<open>toLowerCase\<close>, \<open>toUpperCase\<close> and the two regular-expression replacements the agent
  uses, on ASCII strings.
\<close>

definition to_lower_char :: "char \<Rightarrow> char" where
  "to_lower_char c =
     (case map_of (zip ''ABCDEFGHIJKLMNOPQRSTUVWXYZ'' ''abcdefghijklmnopqrstuvwxyz'') c of
        Some d \<Rightarrow> d | None \<Rightarrow> c)"

definition to_upper_char :: "char \<Rightarrow> char" where
  "to_upper_char c =
     (case map_of (zip ''abcdefghijklmnopqrstuvwxyz'' ''ABCDEFGHIJKLMNOPQRSTUVWXYZ'') c of
        Some d \<Rightarrow> d | None \<Rightarrow> c)"

definition toLowerCase :: "string \<Rightarrow> string" where
  "toLowerCase s = map to_lower_char s"

definition toUpperCase :: "string \<Rightarrow> string" where
  "toUpperCase s = map to_upper_char s"

text \<open>The class \<open>\s\<close>: tab, line feed, vertical tab, form feed, carriage return, space.\<close>

definition is_space :: "char \<Rightarrow> bool" where
  "is_space c = ((of_char c :: nat) \<in> {9, 10, 11, 12, 13, 32})"

definition is_alnum :: "char \<Rightarrow> bool" where
  "is_alnum c =
     (c \<in> set ''abcdefghijklmnopqrstuvwxyzABCDEFGHIJKLMNOPQRSTUVWXYZ0123456789'')"

text \<open>\<open>s.replace(/\s+/g, '-')\<close>: every maximal run of white space becomes one hyphen.\<close>

function replace_spaces :: "string \<Rightarrow> string" where
  "replace_spaces [] = []"
| "replace_spaces (c # cs) =
     (if is_space c then CHR ''-'' # replace_spaces (dropWhile is_space cs)
      else c # replace_spaces cs)"
  by pat_completeness auto
termination
  by (relation "measure length") (auto simp: length_dropWhile_le less_Suc_eq_le)

text \<open>\<open>s.replace(/[^a-zA-Z0-9]/g, '-')\<close>.\<close>

definition replace_non_alnum :: "string \<Rightarrow> string" where
  "replace_non_alnum s = map (\<lambda>c. if is_alnum c then c else CHR ''-'') s"

fun join :: "string \<Rightarrow> string list \<Rightarrow> string" where
  "join sep [] = []"
| "join sep [x] = x"
| "join sep (x # y # ys) = x @ sep @ join sep (y # ys)"

text \<open>The string a template literal puts in for a value.\<close>

fun to_string :: "jsval \<Rightarrow> string" where
  "to_string Undefined = ''undefined''"
| "to_string Null = ''null''"
| "to_string (JBool b) = (if b then ''true'' else ''false'')"
| "to_string (JNum n) = show_int n"
| "to_string (JStr s) = s"
| "to_string (JArr xs) =
     join '','' (map (\<lambda>x. if x = Undefined \<or> x = Null then [] else to_string x) xs)"
| "to_string (JObj kvs) = ''[object Object]''"

text \<open>\<open>Object.keys(v)\<close>: a TypeError on \<open>undefined\<close> and \<open>null\<close>.\<close>

definition object_keys :: "jsval \<Rightarrow> error + string list" where
  "object_keys v =
     (if nullish v then Inl (TypeError ''Cannot convert undefined or null to object'')
      else Inr (own_keys v))"

section \<open>IntegrationAgent.generateAgentWorkflow\<close>

text \<open>
  \<open>openAPISpec.info?.title?.toLowerCase().replace(/\s+/g, '-')\<close>, given the title: the
  chain stops at a missing title, and a title that is not a string has no \<open>toLowerCase\<close>.
\<close>

definition title_slug :: "jsval \<Rightarrow> error + jsval" where
  "title_slug title =
     (if nullish title then Inr Undefined
      else (case title of
              JStr s \<Rightarrow> Inr (JStr (replace_spaces (toLowerCase s)))
            | _ \<Rightarrow> Inl (TypeError ''toLowerCase is not a function'')))"

definition initialize_step :: "jsval \<Rightarrow> string list \<Rightarrow> jsval" where
  "initialize_step openAPISpec endpoints =
     JObj [(''name'', JStr ''initialize-api-client''),
           (''description'', JStr ''Initialize API client with OpenAPI specification''),
           (''action'', JStr ''setup''),
           (''config'', JObj [
              (''openapi_spec'', openAPISpec),
              (''base_url'',
                 or_else (opt_get (opt_get (get openAPISpec ''servers'') ''0'') ''url'')
                         (JStr ''https://api.example.com'')),
              (''endpoints'', JArr (map JStr endpoints))])]"

definition api_proxy_step :: "jsval \<Rightarrow> string \<Rightarrow> string \<Rightarrow> jsval" where
  "api_proxy_step paths endpoint method =
     JObj [(''name'', JStr (''handle-'' @ method @ ''-'' @ replace_non_alnum endpoint)),
           (''description'',
              JStr (''Handle '' @ toUpperCase method @ '' requests to '' @ endpoint)),
           (''action'', JStr ''api-proxy''),
           (''config'', JObj [
              (''method'', JStr (toUpperCase method)),
              (''path'', JStr endpoint),
              (''operation'', get (get paths endpoint) method)])]"

definition monitor_step :: jsval where
  "monitor_step =
     JObj [(''name'', JStr ''monitor-integration''),
           (''description'', JStr ''Monitor integration health and metrics''),
           (''action'', JStr ''monitor''),
           (''config'', JObj [
              (''health_check_interval'', JStr ''30s''),
              (''metrics_endpoint'', JStr ''/metrics''),
              (''log_level'', JStr ''info'')])]"

text \<open>The inner loop over the methods of one endpoint, and the outer loop over endpoints.\<close>

definition endpoint_steps :: "jsval \<Rightarrow> string \<Rightarrow> error + jsval list" where
  "endpoint_steps paths endpoint =
     (case object_keys (get paths endpoint) of
        Inl e \<Rightarrow> Inl e
      | Inr methods \<Rightarrow> Inr (map (api_proxy_step paths endpoint) methods))"

fun endpoints_steps :: "jsval \<Rightarrow> string list \<Rightarrow> error + jsval list" where
  "endpoints_steps paths [] = Inr []"
| "endpoints_steps paths (endpoint # rest) =
     (case endpoint_steps paths endpoint of
        Inl e \<Rightarrow> Inl e
      | Inr xs \<Rightarrow>
          (case endpoints_steps paths rest of
             Inl e \<Rightarrow> Inl e
           | Inr ys \<Rightarrow> Inr (xs @ ys)))"

definition workflow_resources :: jsval where
  "workflow_resources =
     JObj [(''requests'', JObj [(''cpu'', JStr ''100m''), (''memory'', JStr ''128Mi'')]),
           (''limits'', JObj [(''cpu'', JStr ''500m''), (''memory'', JStr ''512Mi'')])]"

definition generateAgentWorkflow :: "jsval \<Rightarrow> jsval \<Rightarrow> error + jsval" where
  "generateAgentWorkflow openAPISpec pydanticModels =
     (case read_prop openAPISpec ''info'' of
        Inl e \<Rightarrow> Inl e
      | Inr info \<Rightarrow>
     (case title_slug (opt_get info ''title'') of
        Inl e \<Rightarrow> Inl e
      | Inr slug \<Rightarrow>
     (let name = ''integration-agent-'' @ to_string (or_else slug (JStr ''api''));
          description =
            ''Integration agent for '' @ to_string (or_else (opt_get info ''title'') (JStr ''API''))
            @ '' ('' @ to_string (or_else (opt_get info ''version'') (JStr ''unknown'')) @ '')'';
          paths = get openAPISpec ''paths''
      in
     (case (if truthy paths
            then (case endpoints_steps paths (take 10 (own_keys paths)) of
                    Inl e \<Rightarrow> Inl e
                  | Inr hs \<Rightarrow> Inr (initialize_step openAPISpec (own_keys paths) # hs))
            else Inr []) of
        Inl e \<Rightarrow> Inl e
      | Inr steps \<Rightarrow>
          Inr (JObj [(''name'', JStr name),
                     (''description'', JStr description),
                     (''steps'', JArr (steps @ [monitor_step])),
                     (''tools'', JArr []),
                     (''environment'', JObj []),
                     (''resources'', workflow_resources)])))))"

text \<open>Reading a workflow back: its steps, the action of a step and the path it handles.\<close>

definition steps_of :: "jsval \<Rightarrow> jsval list" where
  "steps_of workflow = (case get workflow ''steps'' of JArr xs \<Rightarrow> xs | _ \<Rightarrow> [])"

definition is_api_proxy :: "jsval \<Rightarrow> bool" where
  "is_api_proxy step = (get step ''action'' = JStr ''api-proxy'')"

definition step_path :: "jsval \<Rightarrow> jsval" where
  "step_path step = get (get step ''config'') ''path''"

section \<open>LangChainOrchestrator: tool registry and conversation history\<close>

record tool =
  name :: string
  description :: string
  parameters :: jsval

text \<open>\<open>this.tools\<close> is a \<open>Map\<close> from tool name to tool.\<close>

type_synonym registry = "(string \<times> tool) list"

definition registerTool :: "tool \<Rightarrow> registry \<Rightarrow> registry" where
  "registerTool t tools = map_set (name t) t tools"

definition getRegisteredTools :: "registry \<Rightarrow> tool list" where
  "getRegisteredTools tools = map snd tools"

definition string_param :: "string \<Rightarrow> jsval" where
  "string_param d = JObj [(''type'', JStr ''string''), (''description'', JStr d)]"

definition object_param :: "string \<Rightarrow> jsval" where
  "object_param d = JObj [(''type'', JStr ''object''), (''description'', JStr d)]"

definition schema :: "(string \<times> jsval) list \<Rightarrow> string list \<Rightarrow> jsval" where
  "schema props req =
     JObj [(''type'', JStr ''object''), (''properties'', JObj props),
           (''required'', JArr (map JStr req))]"

definition parse_openapi_spec_tool :: tool where
  "parse_openapi_spec_tool =
     \<lparr>name = ''parse_openapi_spec'',
      description = ''Parse and validate an OpenAPI specification from URL or file'',
      parameters =
        schema [(''spec_url'', string_param ''URL or file path to OpenAPI specification'')]
               [''spec_url'']\<rparr>"

definition generate_pydantic_models_tool :: tool where
  "generate_pydantic_models_tool =
     \<lparr>name = ''generate_pydantic_models'',
      description = ''Generate Pydantic models from OpenAPI specification'',
      parameters =
        schema [(''openapi_spec'', object_param ''OpenAPI specification object'')]
               [''openapi_spec'']\<rparr>"

definition generate_kubernetes_manifests_tool :: tool where
  "generate_kubernetes_manifests_tool =
     \<lparr>name = ''generate_kubernetes_manifests'',
      description = ''Generate Kubernetes manifests for integration agent'',
      parameters =
        schema [(''agent_config'',
                   object_param ''Agent configuration including OpenAPI spec and models''),
                (''namespace'', string_param ''Target Kubernetes namespace'')]
               [''agent_config'']\<rparr>"

definition deploy_via_gitops_tool :: tool where
  "deploy_via_gitops_tool =
     \<lparr>name = ''deploy_via_gitops'',
      description = ''Deploy manifests via GitOps workflow'',
      parameters =
        schema [(''manifests'', object_param ''Kubernetes manifests to deploy''),
                (''git_repo'', string_param ''Git repository URL for GitOps''),
                (''namespace'', string_param ''Target namespace'')]
               [''manifests'']\<rparr>"

definition analyze_api_complexity_tool :: tool where
  "analyze_api_complexity_tool =
     \<lparr>name = ''analyze_api_complexity'',
      description =
        ''Analyze OpenAPI specification complexity and provide recommendations'',
      parameters =
        schema [(''openapi_spec'', object_param ''OpenAPI specification to analyze'')]
               [''openapi_spec'']\<rparr>"

definition registerDefaultTools :: "registry \<Rightarrow> registry" where
  "registerDefaultTools tools =
     registerTool analyze_api_complexity_tool
       (registerTool deploy_via_gitops_tool
         (registerTool generate_kubernetes_manifests_tool
           (registerTool generate_pydantic_models_tool
             (registerTool parse_openapi_spec_tool tools))))"

text \<open>A sequence of \<open>registerTool\<close> calls, applied in order to the registry.\<close>

definition register_all :: "tool list \<Rightarrow> registry \<Rightarrow> registry" where
  "register_all ts tools = foldl (\<lambda>r t. registerTool t r) tools ts"

text \<open>
  The outcome of one \<open>orchestrate\<close> call: a tool execution or free-text reasoning, each
  with its \<open>timestamp\<close> last.
\<close>

datatype orch_result =
    ToolExecution (tool_name: string) (arguments: jsval) (tool_result: jsval)
      (reasoning: string) (executed_at: string)
  | Reasoning (content: string) (recommendations: "string list") (answered_at: string)

datatype role = System | User | Assistant

type_synonym chat_message = "role \<times> string"

text \<open>
  \<open>formatResultForHistory\<close>. The \<open>result\<close> of a tool execution is always an object that
  \<open>executeTool\<close> built, so reading its \<open>message\<close> cannot fail.
\<close>

definition formatResultForHistory :: "orch_result \<Rightarrow> string" where
  "formatResultForHistory r =
     (case r of
        ToolExecution t a res why ts \<Rightarrow>
          ''Executed '' @ t @ '': '' @ to_string (or_else (get res ''message'') (JStr ''Success''))
      | Reasoning c recs ts \<Rightarrow> c)"

text \<open>\<open>xs.slice(-n)\<close>: the last \<open>n\<close> elements, all of them when there are fewer.\<close>

definition slice_last :: "nat \<Rightarrow> 'a list \<Rightarrow> 'a list" where
  "slice_last n xs = drop (length xs - n) xs"

definition addToHistory :: "string \<Rightarrow> orch_result \<Rightarrow> chat_message list \<Rightarrow> chat_message list" where
  "addToHistory userInput r history =
     (let h = history @ [(User, userInput), (Assistant, formatResultForHistory r)]
      in if length h > 20 then slice_last 20 h else h)"

text \<open>
  The history after a sequence of completed \<open>orchestrate\<close> calls, each given by its input
  and its outcome, and the same exchanges with nothing dropped.
\<close>

definition history_after :: "(string \<times> orch_result) list \<Rightarrow> chat_message list" where
  "history_after calls = foldl (\<lambda>h (u, r). addToHistory u r h) [] calls"

definition all_exchanges :: "(string \<times> orch_result) list \<Rightarrow> chat_message list" where
  "all_exchanges calls =
     concat (map (\<lambda>(u, r). [(User, u), (Assistant, formatResultForHistory r)]) calls)"

section \<open>Effects\<close>

text \<open>
  A computation that runs in a state, may change it, and ends with a value or a thrown
  error. A state change made before a throw stays made, as in JavaScript.
\<close>

type_synonym ('a, 's) eff = "'s \<Rightarrow> (error + 'a) \<times> 's"

definition ret :: "'a \<Rightarrow> ('a, 's) eff" where
  "ret x = (\<lambda>s. (Inr x, s))"

definition throw :: "error \<Rightarrow> ('a, 's) eff" where
  "throw e = (\<lambda>s. (Inl e, s))"

definition lift :: "error + 'a \<Rightarrow> ('a, 's) eff" where
  "lift r = (\<lambda>s. (r, s))"

definition bnd :: "('a, 's) eff \<Rightarrow> ('a \<Rightarrow> ('b, 's) eff) \<Rightarrow> ('b, 's) eff" where
  "bnd m f = (\<lambda>s. case m s of (Inl e, s') \<Rightarrow> (Inl e, s') | (Inr x, s') \<Rightarrow> f x s')"

definition catch :: "('a, 's) eff \<Rightarrow> (error \<Rightarrow> ('a, 's) eff) \<Rightarrow> ('a, 's) eff" where
  "catch m h = (\<lambda>s. case m s of (Inl e, s') \<Rightarrow> h e s' | (Inr x, s') \<Rightarrow> (Inr x, s'))"

definition reads :: "('s \<Rightarrow> 'a) \<Rightarrow> ('a, 's) eff" where
  "reads f = (\<lambda>s. (Inr (f s), s))"

definition modify :: "('s \<Rightarrow> 's) \<Rightarrow> (unit, 's) eff" where
  "modify f = (\<lambda>s. (Inr (), f s))"

section \<open>The module, its state and its surroundings\<close>

text \<open>
  \<open>context.integrationAgent\<close> carries the four collaborators; what matters of each is
  whether it is there. The other fields of a context are data.
\<close>

record collaborators =
  openAPIParser :: bool
  pydanticGenerator :: bool
  integrationAgent :: bool
  gitOpsManager :: bool

record orch_context =
  context_agents :: "collaborators option"
  context_data :: "(string \<times> jsval) list"

record function_call =
  fc_name :: string
  fc_arguments :: string

text \<open>
  \<open>response.choices[0].message\<close> of the reasoning service. A response without such a
  message makes \<open>processResponse\<close> throw inside \<open>orchestrate\<close>, as a failed request
  does, and is counted with the failed requests.
\<close>

record chat_reply =
  reply_function_call :: "function_call option"
  reply_content :: "string option"

record chat_request =
  request_model :: string
  request_messages :: "chat_message list"
  request_functions :: "tool list"
  request_max_tokens :: nat

text \<open>
  The state of an \<open>IntegrationAgentModule\<close>: the outside world (file system, processes,
  network, clock), the number of requests sent to the reasoning service so far, and the
  fields of the orchestrator, of the metrics collector and of the integration agent.
\<close>

record 'w agent_module =
  world :: 'w
  llm_calls :: nat
  tools :: registry
  conversationHistory :: "chat_message list"
  metricsCollector :: collector
  agents :: "(string \<times> jsval) list"
  agentIdCounter :: nat

text \<open>
  What the module calls and does not define: the reasoning service, which answers the
  \<open>n\<close>-th request it is sent; the collaborators that work through child processes, the
  network and the file system, each acting on the world; the clock, which is part of the
  world and is read, not advanced, by \<open>Date.now()\<close>; JSON and path handling; the prompt
  texts, which contain the JSON text of the context; and the regular-expression extraction
  of recommendations.
\<close>

record 'w env =
  chat_completions_create :: "nat \<Rightarrow> chat_request \<Rightarrow> error + chat_reply"
  parseSpecification :: "jsval \<Rightarrow> 'w \<Rightarrow> (error + jsval) \<times> 'w"
  extractMetadata :: "jsval \<Rightarrow> error + jsval"
  analyzeSpecification :: "jsval \<Rightarrow> error + jsval"
  generateModels :: "jsval \<Rightarrow> 'w \<Rightarrow> (error + jsval) \<times> 'w"
  deployToGitOps :: "jsval \<Rightarrow> 'w \<Rightarrow> (error + jsval) \<times> 'w"
  yaml_generate :: "jsval \<Rightarrow> jsval \<Rightarrow> 'w \<Rightarrow> (error + jsval) \<times> 'w"
  fs_mkdir :: "string \<Rightarrow> 'w \<Rightarrow> (error + unit) \<times> 'w"
  fs_writeFile :: "string \<Rightarrow> jsval \<Rightarrow> 'w \<Rightarrow> (error + unit) \<times> 'w"
  fs_rm :: "string \<Rightarrow> 'w \<Rightarrow> (error + unit) \<times> 'w"
  executeCommand :: "string \<Rightarrow> string list \<Rightarrow> 'w \<Rightarrow> (error + string) \<times> 'w"
  path_join :: "string \<Rightarrow> string \<Rightarrow> string"
  date_now :: "'w \<Rightarrow> int"
  to_ISOString :: "'w \<Rightarrow> string"
  json_parse :: "string \<Rightarrow> error + jsval"
  json_stringify :: "jsval \<Rightarrow> jsval"
  stringify_result :: "orch_result \<Rightarrow> string"
  system_prompt :: "orch_context \<Rightarrow> error + string"
  planning_prompt :: "string \<Rightarrow> orch_context \<Rightarrow> error + string"
  extractRecommendations :: "string \<Rightarrow> string list"

text \<open>A call that acts on the outside world only.\<close>

definition ext :: "('w \<Rightarrow> (error + 'a) \<times> 'w) \<Rightarrow> ('a, 'w agent_module) eff" where
  "ext f = (\<lambda>s. case f (world s) of (r, w) \<Rightarrow> (r, s\<lparr>world := w\<rparr>))"

definition current_time :: "'w env \<Rightarrow> (int, 'w agent_module) eff" where
  "current_time env = reads (\<lambda>s. date_now env (world s))"

definition iso_now :: "'w env \<Rightarrow> (string, 'w agent_module) eff" where
  "iso_now env = reads (\<lambda>s. to_ISOString env (world s))"

text \<open>
  An object literal \<open>{...base, ...v}\<close>: the properties of \<open>v\<close> assigned in order onto
  those collected so far.
\<close>

definition spread :: "(string \<times> jsval) list \<Rightarrow> jsval \<Rightarrow> (string \<times> jsval) list" where
  "spread base v = foldl (\<lambda>obj (k, x). map_set k x obj) base (entries v)"

section \<open>IntegrationAgent: manifests\<close>

definition generateIntegrationManifests :: "'w env \<Rightarrow> string \<Rightarrow> jsval \<Rightarrow> jsval \<Rightarrow> jsval" where
  "generateIntegrationManifests env agentId openAPISpec targetNamespace =
     (let namespace = or_else targetNamespace (JStr ''default'') in
      JObj [
        (''configMap'', JObj [
           (''apiVersion'', JStr ''v1''),
           (''kind'', JStr ''ConfigMap''),
           (''metadata'', JObj [
              (''name'', JStr (agentId @ ''-openapi-spec'')),
              (''namespace'', namespace),
              (''labels'', JObj [
                 (''autoweave.dev/agent-id'', JStr agentId),
                 (''autoweave.dev/component'', JStr ''openapi-spec'')])]),
           (''data'', JObj [(''openapi.json'', json_stringify env openAPISpec)])]),
        (''service'', JObj [
           (''apiVersion'', JStr ''v1''),
           (''kind'', JStr ''Service''),
           (''metadata'', JObj [
              (''name'', JStr (agentId @ ''-service'')),
              (''namespace'', namespace),
              (''labels'', JObj [
                 (''autoweave.dev/agent-id'', JStr agentId),
                 (''autoweave.dev/component'', JStr ''api-proxy'')])]),
           (''spec'', JObj [
              (''selector'', JObj [(''autoweave.dev/agent-id'', JStr agentId)]),
              (''ports'', JArr [
                 JObj [(''name'', JStr ''http''), (''port'', JNum 8080), (''targetPort'', JNum 8080)],
                 JObj [(''name'', JStr ''metrics''), (''port'', JNum 9090),
                       (''targetPort'', JNum 9090)]])])]),
        (''serviceMonitor'', JObj [
           (''apiVersion'', JStr ''monitoring.coreos.com/v1''),
           (''kind'', JStr ''ServiceMonitor''),
           (''metadata'', JObj [
              (''name'', JStr (agentId @ ''-metrics'')),
              (''namespace'', namespace),
              (''labels'', JObj [
                 (''autoweave.dev/agent-id'', JStr agentId),
                 (''autoweave.dev/component'', JStr ''metrics'')])]),
           (''spec'', JObj [
              (''selector'', JObj [
                 (''matchLabels'', JObj [(''autoweave.dev/agent-id'', JStr agentId)])]),
              (''endpoints'', JArr [
                 JObj [(''port'', JStr ''metrics''), (''interval'', JStr ''30s''),
                       (''path'', JStr ''/metrics'')]])])])])"

text \<open>
  \<open>generateKubernetesManifests(options)\<close>. The counter is incremented before anything can
  fail; the \<open>catch\<close> of the source logs and rethrows.
\<close>

definition generateKubernetesManifests ::
  "'w env \<Rightarrow> jsval \<Rightarrow> (jsval, 'w agent_module) eff" where
  "generateKubernetesManifests env options =
     bnd (lift (read_prop options ''openAPISpec'')) (\<lambda>openAPISpec.
     let pydanticModels = get options ''pydanticModels'';
         targetNamespace = get options ''targetNamespace'';
         deployConfig = get options ''deployConfig''
     in
     bnd (modify (\<lambda>s. s\<lparr>agentIdCounter := agentIdCounter s + 1\<rparr>)) (\<lambda>_.
     bnd (reads agentIdCounter) (\<lambda>n.
     let agentId = ''integration-agent-'' @ decimal n in
     bnd (lift (generateAgentWorkflow openAPISpec pydanticModels)) (\<lambda>agentWorkflow.
     bnd (ext (yaml_generate env agentWorkflow
            (JObj [(''agentId'', JStr agentId),
                   (''namespace'', or_else targetNamespace (JStr ''default'')),
                   (''deployConfig'', or_else deployConfig (JObj [])),
                   (''labels'', JObj [
                      (''autoweave.dev/agent-type'', JStr ''integration-agent''),
                      (''autoweave.dev/generated-from'', JStr ''openapi-spec'')])])))
       (\<lambda>manifests.
     let integrationManifests =
           generateIntegrationManifests env agentId openAPISpec targetNamespace
     in
     bnd (iso_now env) (\<lambda>generatedAt.
     let result =
           [(''agentId'', JStr agentId),
            (''manifests'', JObj (spread (spread [] manifests) integrationManifests)),
            (''workflow'', agentWorkflow),
            (''metadata'', JObj [
               (''openAPIVersion'',
                  or_else (opt_get (get openAPISpec ''info'') ''version'') (JStr ''unknown'')),
               (''generatedAt'', JStr generatedAt),
               (''targetNamespace'', targetNamespace)])]
     in
     bnd (iso_now env) (\<lambda>createdAt.
     bnd (modify (\<lambda>s. s\<lparr>agents :=
            map_set agentId
              (JObj (map_set ''createdAt'' (JStr createdAt)
                      (map_set ''status'' (JStr ''generated'') result)))
              (agents s)\<rparr>)) (\<lambda>_.
     ret (JObj result)))))))))"

text \<open>
  \<open>validateManifests(manifests)\<close>. Writing the manifests to files, then the loop of
  \<open>kubectl\<close> dry runs, which stops at the first command that fails.
\<close>

fun write_manifests ::
  "'w env \<Rightarrow> string \<Rightarrow> (string \<times> jsval) list \<Rightarrow> (string list, 'w agent_module) eff" where
  "write_manifests env tempDir [] = ret []"
| "write_manifests env tempDir ((key, manifest) # rest) =
     (let filePath = path_join env tempDir (key @ ''.yaml'') in
      bnd (ext (fs_writeFile env filePath (json_stringify env manifest))) (\<lambda>_.
      bnd (write_manifests env tempDir rest) (\<lambda>files.
      ret (filePath # files))))"

fun kubectl_dry_runs :: "'w env \<Rightarrow> string list \<Rightarrow> (unit, 'w agent_module) eff" where
  "kubectl_dry_runs env [] = ret ()"
| "kubectl_dry_runs env (file # files) =
     bnd (ext (executeCommand env ''kubectl'' [''apply'', ''-f'', file, ''--dry-run=client'']))
       (\<lambda>_. kubectl_dry_runs env files)"

text \<open>
  One of the three checks: \<open>passed\<close> becomes true when the commands succeed, and the
  message of the error goes into \<open>errors\<close> when one fails. A check does not throw.
\<close>

definition run_check :: "(unit, 's) eff \<Rightarrow> (jsval, 's) eff" where
  "run_check commands =
     catch (bnd commands (\<lambda>_. ret (JObj [(''passed'', JBool True), (''errors'', JArr [])])))
           (\<lambda>e. ret (JObj [(''passed'', JBool False), (''errors'', JArr [JStr (message e)])]))"

definition validateManifests :: "'w env \<Rightarrow> jsval \<Rightarrow> (jsval, 'w agent_module) eff" where
  "validateManifests env manifests =
     bnd (current_time env) (\<lambda>t.
     let tempDir = path_join env ''/tmp'' (''autoweave-validation-'' @ show_int t) in
     bnd (ext (fs_mkdir env tempDir)) (\<lambda>_.
     bnd (lift (read_prop manifests ''manifests'')) (\<lambda>inner.
     bnd (write_manifests env tempDir (entries (or_else inner manifests))) (\<lambda>manifestFiles.
     bnd (run_check
            (bnd (ext (executeCommand env ''kubeconform'' [''-strict'', ''-summary'', tempDir]))
               (\<lambda>_. ret ()))) (\<lambda>kubeconform.
     bnd (run_check
            (bnd (ext (executeCommand env ''conftest'' [''test'', tempDir])) (\<lambda>_. ret ())))
       (\<lambda>conftest.
     bnd (run_check (kubectl_dry_runs env manifestFiles)) (\<lambda>kubectl.
     bnd (ext (fs_rm env tempDir)) (\<lambda>_.
     ret (JObj [(''kubeconform'', kubeconform), (''conftest'', conftest),
                (''kubectl'', kubectl)])))))))))"

section \<open>LangChainOrchestrator: tools and reasoning\<close>

text \<open>\<open>context.integrationAgent || {}\<close>: without it no collaborator is there.\<close>

definition agents_of :: "orch_context \<Rightarrow> collaborators" where
  "agents_of ctx =
     (case context_agents ctx of
        Some a \<Rightarrow> a
      | None \<Rightarrow> \<lparr>openAPIParser = False, pydanticGenerator = False, integrationAgent = False,
                  gitOpsManager = False\<rparr>)"

definition executeOpenAPIParser ::
  "'w env \<Rightarrow> jsval \<Rightarrow> orch_context \<Rightarrow> (jsval, 'w agent_module) eff" where
  "executeOpenAPIParser env args ctx =
     (if \<not> openAPIParser (agents_of ctx)
      then throw (Error ''Error'' ''OpenAPI Parser not available in context'')
      else
        bnd (lift (read_prop args ''spec_url'')) (\<lambda>spec_url.
        bnd (ext (parseSpecification env spec_url)) (\<lambda>spec.
        bnd (lift (extractMetadata env spec)) (\<lambda>metadata.
        bnd (lift (analyzeSpecification env spec)) (\<lambda>analysis.
        bnd (lift (read_prop metadata ''title'')) (\<lambda>title.
        bnd (lift (read_prop metadata ''version'')) (\<lambda>version.
        ret (JObj [(''success'', JBool True),
                   (''spec'', spec),
                   (''metadata'', metadata),
                   (''analysis'', analysis),
                   (''message'', JStr (''Successfully parsed OpenAPI spec: ''
                      @ to_string title @ '' v'' @ to_string version))]))))))))"

definition executePydanticGenerator ::
  "'w env \<Rightarrow> jsval \<Rightarrow> orch_context \<Rightarrow> (jsval, 'w agent_module) eff" where
  "executePydanticGenerator env args ctx =
     (if \<not> pydanticGenerator (agents_of ctx)
      then throw (Error ''Error'' ''Pydantic Generator not available in context'')
      else
        bnd (lift (read_prop args ''openapi_spec'')) (\<lambda>openapi_spec.
        bnd (ext (generateModels env openapi_spec)) (\<lambda>result.
        bnd (lift (read_prop result ''modelsInfo'')) (\<lambda>modelsInfo.
        bnd (lift (read_prop modelsInfo ''models'')) (\<lambda>models.
        bnd (lift (read_prop models ''length'')) (\<lambda>count.
        ret (JObj (map_set ''message''
                     (JStr (''Generated '' @ to_string count @ '' Pydantic models''))
                     (spread [(''success'', JBool True)] result)))))))))"

definition executeManifestGenerator ::
  "'w env \<Rightarrow> jsval \<Rightarrow> orch_context \<Rightarrow> (jsval, 'w agent_module) eff" where
  "executeManifestGenerator env args ctx =
     (if \<not> integrationAgent (agents_of ctx)
      then throw (Error ''Error'' ''Integration Agent not available in context'')
      else
        bnd (lift (read_prop args ''agent_config'')) (\<lambda>agent_config.
        let namespace = get args ''namespace'' in
        bnd (generateKubernetesManifests env
               (JObj (map_set ''targetNamespace'' namespace (spread [] agent_config))))
          (\<lambda>manifests.
        ret (JObj [(''success'', JBool True),
                   (''manifests'', manifests),
                   (''message'', JStr (''Generated Kubernetes manifests for namespace: ''
                      @ to_string (or_else namespace (JStr ''default''))))]))))"

definition executeGitOpsDeployment ::
  "'w env \<Rightarrow> jsval \<Rightarrow> orch_context \<Rightarrow> (jsval, 'w agent_module) eff" where
  "executeGitOpsDeployment env args ctx =
     (if \<not> gitOpsManager (agents_of ctx)
      then throw (Error ''Error'' ''GitOps Manager not available in context'')
      else
        bnd (ext (deployToGitOps env args)) (\<lambda>result.
        bnd (lift (read_prop args ''git_repo'')) (\<lambda>git_repo.
        ret (JObj (map_set ''message''
                     (JStr (''Deployed to GitOps repository: ''
                        @ to_string (or_else git_repo (JStr ''default''))))
                     (spread [(''success'', JBool True)] result))))))"

definition executeComplexityAnalyzer ::
  "'w env \<Rightarrow> jsval \<Rightarrow> orch_context \<Rightarrow> (jsval, 'w agent_module) eff" where
  "executeComplexityAnalyzer env args ctx =
     (if \<not> openAPIParser (agents_of ctx)
      then throw (Error ''Error'' ''OpenAPI Parser not available in context'')
      else
        bnd (lift (read_prop args ''openapi_spec'')) (\<lambda>openapi_spec.
        bnd (lift (analyzeSpecification env openapi_spec)) (\<lambda>analysis.
        bnd (lift (extractMetadata env openapi_spec)) (\<lambda>metadata.
        bnd (lift (read_prop analysis ''recommendations'')) (\<lambda>recs.
        bnd (lift (read_prop analysis ''complexity'')) (\<lambda>complexity.
        bnd (lift (read_prop metadata ''endpoints'')) (\<lambda>endpoints.
        bnd (lift (read_prop endpoints ''length'')) (\<lambda>count.
        ret (JObj [(''success'', JBool True),
                   (''analysis'', analysis),
                   (''metadata'', metadata),
                   (''recommendations'', recs),
                   (''complexity'', complexity),
                   (''message'', JStr (''API complexity: '' @ to_string complexity @ '', ''
                      @ to_string count @ '' endpoints''))])))))))))"

text \<open>
  \<open>executeTool\<close>: the arguments are parsed before the \<open>try\<close>, so a parse error is
  thrown; an error of the tool itself is caught and returned as a result object.
\<close>

definition executeTool ::
  "'w env \<Rightarrow> function_call \<Rightarrow> orch_context \<Rightarrow> (jsval, 'w agent_module) eff" where
  "executeTool env functionCall ctx =
     bnd (lift (json_parse env (fc_arguments functionCall))) (\<lambda>parsedArgs.
     catch
       (if fc_name functionCall = ''parse_openapi_spec''
          then executeOpenAPIParser env parsedArgs ctx
        else if fc_name functionCall = ''generate_pydantic_models''
          then executePydanticGenerator env parsedArgs ctx
        else if fc_name functionCall = ''generate_kubernetes_manifests''
          then executeManifestGenerator env parsedArgs ctx
        else if fc_name functionCall = ''deploy_via_gitops''
          then executeGitOpsDeployment env parsedArgs ctx
        else if fc_name functionCall = ''analyze_api_complexity''
          then executeComplexityAnalyzer env parsedArgs ctx
        else throw (Error ''Error'' (''Unknown tool: '' @ fc_name functionCall)))
       (\<lambda>e. ret (JObj [(''success'', JBool False),
                        (''error'', JStr (message e)),
                        (''tool'', JStr (fc_name functionCall)),
                        (''arguments'', parsedArgs)])))"

text \<open>
  \<open>processResponse\<close>. Free text that is \<open>null\<close> has no \<open>match\<close> method, and
  \<open>extractRecommendations\<close> throws a TypeError on it.
\<close>

definition processResponse ::
  "'w env \<Rightarrow> chat_reply \<Rightarrow> orch_context \<Rightarrow> (orch_result, 'w agent_module) eff" where
  "processResponse env reply ctx =
     (case reply_function_call reply of
        Some functionCall \<Rightarrow>
          bnd (executeTool env functionCall ctx) (\<lambda>toolResult.
          bnd (lift (json_parse env (fc_arguments functionCall))) (\<lambda>args.
          bnd (iso_now env) (\<lambda>stamp.
          ret (ToolExecution (fc_name functionCall) args toolResult
                 (case reply_content reply of
                    Some c \<Rightarrow> if c \<noteq> [] then c else ''Executed '' @ fc_name functionCall
                  | None \<Rightarrow> ''Executed '' @ fc_name functionCall)
                 stamp))))
      | None \<Rightarrow>
          (case reply_content reply of
             None \<Rightarrow> throw (TypeError ''Cannot read properties of null: match'')
           | Some c \<Rightarrow>
               bnd (iso_now env) (\<lambda>stamp.
               ret (Reasoning c (extractRecommendations env c) stamp))))"

definition buildMessages ::
  "'w env \<Rightarrow> string \<Rightarrow> orch_context \<Rightarrow> (chat_message list, 'w agent_module) eff" where
  "buildMessages env userInput ctx =
     bnd (lift (system_prompt env ctx)) (\<lambda>systemPrompt.
     bnd (reads conversationHistory) (\<lambda>history.
     ret ([(System, systemPrompt)] @ slice_last 6 history @ [(User, userInput)])))"

definition getToolFunctions :: "registry \<Rightarrow> tool list" where
  "getToolFunctions reg =
     map (\<lambda>t. \<lparr>name = name t, description = description t, parameters = parameters t\<rparr>)
       (map snd reg)"

text \<open>Sending a request: the service answers it by its number, and the number goes up.\<close>

definition send_request :: "'w env \<Rightarrow> chat_request \<Rightarrow> (chat_reply, 'w agent_module) eff" where
  "send_request env request =
     (\<lambda>s. (chat_completions_create env (llm_calls s) request,
           s\<lparr>llm_calls := llm_calls s + 1\<rparr>))"

text \<open>\<open>orchestrate(userInput, context)\<close>; its \<open>catch\<close> logs and rethrows.\<close>

definition orchestrate ::
  "'w env \<Rightarrow> string \<Rightarrow> orch_context \<Rightarrow> (orch_result, 'w agent_module) eff" where
  "orchestrate env userInput ctx =
     bnd (buildMessages env userInput ctx) (\<lambda>msgs.
     bnd (reads tools) (\<lambda>reg.
     bnd (send_request env
            \<lparr>request_model = ''gpt-4'', request_messages = msgs,
             request_functions = getToolFunctions reg, request_max_tokens = 2000\<rparr>)
       (\<lambda>response.
     bnd (processResponse env response ctx) (\<lambda>result.
     bnd (modify (\<lambda>s. s\<lparr>conversationHistory :=
                        addToHistory userInput result (conversationHistory s)\<rparr>)) (\<lambda>_.
     ret result)))))"

text \<open>\<open>s.includes(p)\<close>.\<close>

fun str_includes :: "string \<Rightarrow> string \<Rightarrow> bool" where
  "str_includes [] p = (p = [])"
| "str_includes (c # cs) p = (take (length p) (c # cs) = p \<or> str_includes cs p)"

text \<open>\<open>response.content || JSON.stringify(response)\<close>.\<close>

definition response_text :: "'w env \<Rightarrow> orch_result \<Rightarrow> string" where
  "response_text env response =
     (case response of
        Reasoning c recs stamp \<Rightarrow> if c \<noteq> [] then c else stringify_result env response
      | ToolExecution t a res why stamp \<Rightarrow> stringify_result env response)"

definition estimateIntegrationDuration :: "'w env \<Rightarrow> orch_result \<Rightarrow> string" where
  "estimateIntegrationDuration env response =
     (let c = response_text env response in
      if str_includes c ''complex'' \<or> str_includes c ''many endpoints'' then ''30-60 minutes''
      else if str_includes c ''medium'' \<or> str_includes c ''moderate'' then ''15-30 minutes''
      else ''5-15 minutes'')"

definition identifyRequiredResources :: "'w env \<Rightarrow> orch_result \<Rightarrow> string list" where
  "identifyRequiredResources env response =
     (let c = response_text env response in
      [''OpenAPI specification'', ''Kubernetes cluster'']
      @ (if str_includes c ''git'' \<or> str_includes c ''GitOps'' then [''Git repository''] else [])
      @ (if str_includes c ''auth'' \<or> str_includes c ''authentication'' then [''API credentials'']
         else [])
      @ (if str_includes c ''database'' \<or> str_includes c ''storage'' then [''Database/storage'']
         else []))"

record integration_plan =
  plan_request :: string
  plan_response :: orch_result
  estimatedDuration :: string
  requiredResources :: "string list"
  plan_timestamp :: string

definition planIntegration ::
  "'w env \<Rightarrow> string \<Rightarrow> orch_context \<Rightarrow> (integration_plan, 'w agent_module) eff" where
  "planIntegration env request ctx =
     bnd (lift (planning_prompt env request ctx)) (\<lambda>planningPrompt.
     bnd (orchestrate env planningPrompt ctx) (\<lambda>response.
     bnd (iso_now env) (\<lambda>stamp.
     ret \<lparr>plan_request = request, plan_response = response,
          estimatedDuration = estimateIntegrationDuration env response,
          requiredResources = identifyRequiredResources env response,
          plan_timestamp = stamp\<rparr>)))"

section \<open>IntegrationAgentModule.createIntegrationAgent\<close>

record integration_result =
  result_success :: bool
  plan :: integration_plan
  openAPISpec :: jsval
  pydanticModels :: jsval
  kubernetesManifests :: jsval
  deploymentResult :: jsval
  orchestrationResults :: "(string \<times> orch_result) list"
  duration :: int
  result_timestamp :: string

text \<open>The \<open>result\<close> property of an \<open>orchestrate\<close> outcome: free text has none.\<close>

definition result_of :: "orch_result \<Rightarrow> jsval" where
  "result_of r =
     (case r of ToolExecution t a res why stamp \<Rightarrow> res | Reasoning c recs stamp \<Rightarrow> Undefined)"

text \<open>\<open>a || await b\<close>: \<open>b\<close> runs only when \<open>a\<close> is falsy.\<close>

definition or_await :: "jsval \<Rightarrow> (jsval, 's) eff \<Rightarrow> (jsval, 's) eff" where
  "or_await a b = (if truthy a then ret a else b)"

definition orchestrationContext :: orch_context where
  "orchestrationContext =
     \<lparr>context_agents = Some \<lparr>openAPIParser = True, pydanticGenerator = True,
                              integrationAgent = True, gitOpsManager = True\<rparr>,
      context_data = []\<rparr>"

definition with_data :: "orch_context \<Rightarrow> (string \<times> jsval) list \<Rightarrow> orch_context" where
  "with_data ctx more_data = ctx\<lparr>context_data := context_data ctx @ more_data\<rparr>"

definition namespace_or_default :: "jsval \<Rightarrow> string" where
  "namespace_or_default options =
     to_string (or_else (get options ''target_namespace'') (JStr ''default''))"

definition integrationRequest :: "jsval \<Rightarrow> string" where
  "integrationRequest options =
     ''Create an integration agent from OpenAPI specification at ''
     @ to_string (get options ''openapi_url'')
     @ '' for deployment in namespace '' @ namespace_or_default options
     @ (if truthy (get options ''git_repo'')
        then '' with GitOps deployment to '' @ to_string (get options ''git_repo'')
        else [])"

text \<open>Step 5 of the run: deployment, only with a truthy \<open>git_repo\<close>.\<close>

definition deploy_step :: "'w env \<Rightarrow> jsval \<Rightarrow> jsval \<Rightarrow> (jsval, 'w agent_module) eff" where
  "deploy_step env options manifests =
     (if truthy (get options ''git_repo'') then
        bnd (orchestrate env
               (''Deploy the generated manifests via GitOps to repository ''
                  @ to_string (get options ''git_repo''))
               (with_data orchestrationContext
                  [(''manifests'', manifests),
                   (''git_repo'', get options ''git_repo''),
                   (''namespace'', get options ''target_namespace'')])) (\<lambda>gitOpsResult.
        or_await (result_of gitOpsResult)
          (ext (deployToGitOps env
             (JObj [(''manifests'', manifests),
                    (''gitRepo'', get options ''git_repo''),
                    (''targetNamespace'', get options ''target_namespace'')]))))
      else ret Null)"

text \<open>
  The body of the \<open>try\<close> block up to and including step 5; \<open>startTime\<close> is the clock
  reading taken on entry. What it returns is the result without \<open>duration\<close> and
  \<open>timestamp\<close>.
\<close>

definition integration_steps ::
  "'w env \<Rightarrow> jsval \<Rightarrow> (integration_result, 'w agent_module) eff" where
  "integration_steps env options =
     bnd (planIntegration env (integrationRequest options) orchestrationContext) (\<lambda>plan.
     bnd (orchestrate env
            (''Parse and analyze the OpenAPI specification at ''
               @ to_string (get options ''openapi_url''))
            orchestrationContext) (\<lambda>openAPIResult.
     bnd (or_await (opt_get (result_of openAPIResult) ''spec'')
            (ext (parseSpecification env (get options ''openapi_url'')))) (\<lambda>openAPISpec.
     bnd (orchestrate env ''Generate Pydantic models from the parsed OpenAPI specification''
            (with_data orchestrationContext [(''openapi_spec'', openAPISpec)]))
       (\<lambda>pydanticResult.
     bnd (or_await (result_of pydanticResult) (ext (generateModels env openAPISpec)))
       (\<lambda>pydanticModels.
     bnd (orchestrate env
            (''Generate Kubernetes manifests for deployment in namespace ''
               @ namespace_or_default options)
            (with_data orchestrationContext
               [(''agent_config'', JObj [(''openAPISpec'', openAPISpec),
                                         (''pydanticModels'', pydanticModels)]),
                (''namespace'', get options ''target_namespace'')])) (\<lambda>manifestsResult.
     bnd (or_await (opt_get (result_of manifestsResult) ''manifests'')
            (generateKubernetesManifests env
               (JObj [(''openAPISpec'', openAPISpec),
                      (''pydanticModels'', pydanticModels),
                      (''targetNamespace'', get options ''target_namespace''),
                      (''deployConfig'', get options ''deploy_config'')])))
       (\<lambda>kubernetesManifests.
     bnd (validateManifests env kubernetesManifests) (\<lambda>_.
     bnd (deploy_step env options kubernetesManifests) (\<lambda>deploymentResult.
     ret \<lparr>result_success = True, plan = plan, openAPISpec = openAPISpec,
          pydanticModels = pydanticModels, kubernetesManifests = kubernetesManifests,
          deploymentResult = deploymentResult,
          orchestrationResults =
            [(''openAPI'', openAPIResult), (''pydantic'', pydanticResult),
             (''manifests'', manifestsResult)],
          duration = 0, result_timestamp = []\<rparr>)))))))))"

text \<open>
  \<open>createIntegrationAgent(options)\<close>. The check of \<open>openapi_url\<close> comes before the
  \<open>try\<close>; inside it the run is started, the steps are taken and the success is recorded;
  the \<open>catch\<close> records the failure and throws the error again.
\<close>

definition createIntegrationAgent ::
  "'w env \<Rightarrow> jsval \<Rightarrow> (integration_result, 'w agent_module) eff" where
  "createIntegrationAgent env options =
     bnd (current_time env) (\<lambda>startTime.
     bnd (lift (read_prop options ''openapi_url'')) (\<lambda>openapi_url.
     if \<not> truthy openapi_url
     then throw (Error ''Error'' ''Missing required parameter: openapi_url'')
     else
       catch
         (bnd (current_time env) (\<lambda>t.
          bnd (modify (\<lambda>s. s\<lparr>metricsCollector :=
                 snd (startIntegration (Some (''integration-'' @ show_int t)) options t
                        (metricsCollector s))\<rparr>)) (\<lambda>_.
          bnd (integration_steps env options) (\<lambda>r.
          bnd (current_time env) (\<lambda>finish.
          let duration = finish - startTime in
          bnd (modify (\<lambda>s. s\<lparr>metricsCollector :=
                 recordSuccess duration (metricsCollector s)\<rparr>)) (\<lambda>_.
          bnd (iso_now env) (\<lambda>stamp.
          ret (r\<lparr>duration := duration, result_timestamp := stamp\<rparr>))))))))
         (\<lambda>e.
          bnd (current_time env) (\<lambda>finish.
          bnd (modify (\<lambda>s. s\<lparr>metricsCollector :=
                 recordFailure (finish - startTime) e (metricsCollector s)\<rparr>)) (\<lambda>_.
          throw e)))))"

text \<open>
  The run with the reasoning left out: each stage's collaborator invoked directly with the
  options of the run, in the order of the stages, and the deployment only with a truthy
  \<open>git_repo\<close>. This definition follows the specification's description of the fallback,
  not a function of the source.
\<close>

record stage_outputs =
  parsed_spec :: jsval
  generated_models :: jsval
  generated_manifests :: jsval
  deployment :: jsval



text \<open>The state of a new module in a given world.\<close>

definition new_module :: "'w \<Rightarrow> 'w agent_module" where
  "new_module w =
     \<lparr>world = w, llm_calls = 0, tools = registerDefaultTools [], conversationHistory = [],
      metricsCollector = new_collector, agents = [], agentIdCounter = 0\<rparr>"

section \<open>Sequences of orchestrate calls\<close>

text \<open>
  Any number of \<open>orchestrate\<close> calls, one after the other, each with its input and
  context, whether it returns or throws. \<open>planIntegration\<close> is such a call with the
  planning prompt as its input.
\<close>

fun orchestrate_all ::
  "'w env \<Rightarrow> (string \<times> orch_context) list \<Rightarrow> 'w agent_module \<Rightarrow> 'w agent_module" where
  "orchestrate_all env [] s = s"
| "orchestrate_all env ((input, ctx) # rest) s =
     orchestrate_all env rest (snd (orchestrate env input ctx s))"

text \<open>The calls among them that returned, each with its input and its outcome.\<close>

fun returned_calls ::
  "'w env \<Rightarrow> (string \<times> orch_context) list \<Rightarrow> 'w agent_module
     \<Rightarrow> (string \<times> orch_result) list" where
  "returned_calls env [] s = []"
| "returned_calls env ((input, ctx) # rest) s =
     (case orchestrate env input ctx s of
        (Inl e, s') \<Rightarrow> returned_calls env rest s'
      | (Inr x, s') \<Rightarrow> (input, x) # returned_calls env rest s')"

section \<open>Properties of computations\<close>

text \<open>A computation that leaves a component \<open>g\<close> of the state as it found it.\<close>

definition preserves :: "('s \<Rightarrow> 'b) \<Rightarrow> ('a, 's) eff \<Rightarrow> bool" where
  "preserves g m = (\<forall>s. g (snd (m s)) = g s)"

text \<open>
  A component of the module state that the world, the agent store and the agent counter
  are not part of.
\<close>

definition inner :: "('w agent_module \<Rightarrow> 'b) \<Rightarrow> bool" where
  "inner g =
     ((\<forall>s w. g (s\<lparr>world := w\<rparr>) = g s) \<and> (\<forall>s a. g (s\<lparr>agents := a\<rparr>) = g s) \<and>
      (\<forall>s n. g (s\<lparr>agentIdCounter := n\<rparr>) = g s))"

text \<open>A computation that, when it returns, has sent \<open>n\<close> requests to the service.\<close>

definition adds :: "nat \<Rightarrow> ('a, 'w agent_module) eff \<Rightarrow> bool" where
  "adds n m = (\<forall>s r s'. m s = (Inr r, s') \<longrightarrow> llm_calls s' = llm_calls s + n)"






section \<open>Concrete surroundings\<close>

text \<open>
  What a check reports for the outcome of its commands: passed when they all succeeded,
  and otherwise failed, with the message of the error.
\<close>

definition check_report :: "error + 'a \<Rightarrow> jsval" where
  "check_report outcome =
     (case outcome of
        Inr done \<Rightarrow> JObj [(''passed'', JBool True), (''errors'', JArr [])]
      | Inl e \<Rightarrow> JObj [(''passed'', JBool False), (''errors'', JArr [JStr (message e)])])"


text \<open>
  Surroundings in which everything works: the world counts the outside calls made, the
  clock advances with it, every collaborator and command succeeds, and the reasoning
  service answers every request with free text.
\<close>

definition calm_env :: "nat env" where
  "calm_env =
     \<lparr>chat_completions_create =
        (\<lambda>n request. Inr \<lparr>reply_function_call = None,
                           reply_content = Some ''Proceed stage by stage.''\<rparr>),
      parseSpecification =
        (\<lambda>source w. (Inr (JObj [(''info'', JObj [(''title'', JStr ''Billing API''),
                                               (''version'', JStr ''1.0'')])]), w + 1)),
      extractMetadata = (\<lambda>spec. Inr (JObj [(''title'', JStr ''Billing API''),
                                           (''version'', JStr ''1.0'')])),
      analyzeSpecification = (\<lambda>spec. Inr (JObj [(''complexity'', JStr ''low'')])),
      generateModels = (\<lambda>spec w. (Inr (JObj [(''success'', JBool True)]), w + 1)),
      deployToGitOps = (\<lambda>opts w. (Inr (JObj [(''success'', JBool True)]), w + 1)),
      yaml_generate = (\<lambda>workflow opts w. (Inr (JObj []), w + 1)),
      fs_mkdir = (\<lambda>dir w. (Inr (), w + 1)),
      fs_writeFile = (\<lambda>file text w. (Inr (), w + 1)),
      fs_rm = (\<lambda>dir w. (Inr (), w + 1)),
      executeCommand = (\<lambda>command args w. (Inr [], w + 1)),
      path_join = (\<lambda>a b. a @ ''/'' @ b),
      date_now = (\<lambda>w. 1000 + int w),
      to_ISOString = (\<lambda>w. ''2025-01-01T00:00:00.000Z''),
      json_parse = (\<lambda>text. Inr (JObj [])),
      json_stringify = (\<lambda>v. JStr ''{}''),
      stringify_result = (\<lambda>r. ''{}''),
      system_prompt = (\<lambda>ctx. Inr ''You are an AI Integration Agent Orchestrator''),
      planning_prompt = (\<lambda>request ctx. Inr request),
      extractRecommendations = (\<lambda>text. [])\<rparr>"

definition billing_options :: jsval where
  "billing_options =
     JObj [(''openapi_url'', JStr ''https://x/openapi.json''),
           (''target_namespace'', JStr ''billing'')]"

definition three_manifests :: jsval where
  "three_manifests =
     JObj [(''agentId'', JStr ''integration-agent-1''),
           (''manifests'', JObj [(''configMap'', JObj []), (''service'', JObj []),
                                 (''serviceMonitor'', JObj [])])]"

text \<open>The same surroundings, except that the temporary directory cannot be created.\<close>

definition mkdir_denied :: "nat env" where
  "mkdir_denied =
     calm_env\<lparr>fs_mkdir := (\<lambda>dir w. (Inl (Error ''Error'' ''EACCES: permission denied, mkdir''), w))\<rparr>"

text \<open>The same surroundings, except that every \<open>kubectl\<close> command fails.\<close>

definition kubectl_error :: error where
  "kubectl_error = Error ''Error'' ''Command failed with code 1: no such cluster''"

definition kubectl_fails :: "nat env" where
  "kubectl_fails =
     calm_env\<lparr>executeCommand :=
       (\<lambda>command args w. if command = ''kubectl'' then (Inl kubectl_error, w + 1)
                          else (Inr [], w + 1))\<rparr>"

text \<open>
  The same surroundings, except that the third request to the reasoning service, the one of
  the model stage, is answered by selecting the model generation tool, and that the model
  generator fails.
\<close>

definition models_error :: error where
  "models_error = Error ''Error'' ''Failed to generate models: bridge exited''"

definition models_tool_fails :: "nat env" where
  "models_tool_fails =
     calm_env\<lparr>chat_completions_create :=
        (\<lambda>n request.
           if n = 2
           then Inr \<lparr>reply_function_call =
                       Some \<lparr>fc_name = ''generate_pydantic_models'', fc_arguments = ''{}''\<rparr>,
                     reply_content = None\<rparr>
           else Inr \<lparr>reply_function_call = None,
                     reply_content = Some ''Proceed stage by stage.''\<rparr>),
      generateModels := (\<lambda>spec w. (Inl models_error, w + 1))\<rparr>"


text \<open>The same surroundings, except that the specification cannot be parsed.\<close>

definition parse_error :: error where
  "parse_error = Error ''Error'' ''Failed to parse OpenAPI spec: not found''"

definition parse_fails :: "nat env" where
  "parse_fails = calm_env\<lparr>parseSpecification := (\<lambda>source w. (Inl parse_error, w + 1))\<rparr>"

text \<open>Options without \<open>openapi_url\<close>.\<close>

definition no_url_options :: jsval where
  "no_url_options = JObj [(''target_namespace'', JStr ''billing'')]"



text \<open>
  What registries built by \<open>registerTool\<close> satisfy: one entry per key, filed under the
  name of its tool.
\<close>

definition registry_ok :: "registry \<Rightarrow> bool" where
  "registry_ok reg = (distinct (map fst reg) \<and> list_all (\<lambda>p. fst p = name (snd p)) reg)"

text \<open>A second tool with the name of the default parsing tool.\<close>

definition replacement_tool :: tool where
  "replacement_tool =
     \<lparr>name = ''parse_openapi_spec'', description = ''Another parser'', parameters = Null\<rparr>"

text \<open>A specification with eleven paths, the first with two methods.\<close>

definition item1 :: jsval where
  "item1 = JObj [(''get'', JObj [])]"

definition eleven_paths :: "(string \<times> jsval) list" where
  "eleven_paths =
     [(''/a'', JObj [(''get'', JObj []), (''post'', JObj [])]), (''/b'', item1), (''/c'', item1),
      (''/d'', item1), (''/e'', item1), (''/f'', item1), (''/g'', item1), (''/h'', item1),
      (''/i'', item1), (''/j'', item1), (''/k'', item1)]"

definition eleven_paths_spec :: jsval where
  "eleven_paths_spec =
     JObj [(''info'', JObj [(''title'', JStr ''Billing API''), (''version'', JStr ''1.0'')]),
           (''paths'', JObj eleven_paths)]"

text \<open>Two runs, started one after the other; the first fails and the second succeeds.\<close>

definition example_calls :: "tracker_call list" where
  "example_calls =
     [StartIntegration (Some ''integration-1'') Undefined 1,
      StartIntegration None Undefined 2,
      RecordFailure 7 (Error ''Error'' ''boom''),
      RecordSuccess 9]"

section \<open>The outcome counters\<close>

lemma the_integrations_put [simp]:
  "the_integrations (put_integrations (integrations (metrics c)) v c) = v"
  by (simp add: the_integrations_def put_integrations_def)

lemma the_integrations_put_performance [simp]:
  "the_integrations (put_performance a v c) = the_integrations c"
  by (simp add: the_integrations_def put_performance_def)

lemma the_integrations_put_counts [simp]:
  "the_integrations (put_counts a v c) = the_integrations c"
  by (simp add: the_integrations_def put_counts_def)

lemma metrics_put [simp]:
  "metrics (put_integrations a i c) = metrics c"
  "metrics (put_performance a p c) = metrics c"
  "metrics (put_counts a l c) = metrics c"
  by (simp_all add: put_integrations_def put_performance_def put_counts_def)

lemma the_integrations_updateDurationMetrics [simp]:
  "the_integrations (updateDurationMetrics d c) = the_integrations c"
  by (simp add: updateDurationMetrics_def Let_def)

lemma metrics_updateDurationMetrics [simp]:
  "metrics (updateDurationMetrics d c) = metrics c"
  by (simp add: updateDurationMetrics_def Let_def)

lemma the_integrations_startIntegration:
  "the_integrations (snd (startIntegration ident md now c)) =
     (the_integrations c)\<lparr>in_progress := in_progress (the_integrations c) + 1\<rparr>"
  by (simp add: startIntegration_def Let_def the_integrations_def put_integrations_def
      split: option.split)

lemma the_integrations_recordSuccess:
  "the_integrations (recordSuccess d c) =
     (the_integrations c)\<lparr>success := success (the_integrations c) + 1,
        total := total (the_integrations c) + 1,
        in_progress := max 0 (in_progress (the_integrations c) - 1)\<rparr>"
  by (simp add: recordSuccess_def Let_def)

lemma the_integrations_recordFailure:
  "the_integrations (recordFailure d e c) =
     (the_integrations c)\<lparr>failed := failed (the_integrations c) + 1,
        total := total (the_integrations c) + 1,
        in_progress := max 0 (in_progress (the_integrations c) - 1)\<rparr>"
  by (simp add: recordFailure_def Let_def)

lemmas the_integrations_step =
  the_integrations_startIntegration the_integrations_recordSuccess the_integrations_recordFailure

lemma the_integrations_new_collector: "the_integrations new_collector = zero_integrations"
  by (simp add: new_collector_def alloc_metrics_def empty_store_def the_integrations_def Let_def)

lemma tracker_run_snoc: "tracker_run (calls @ [c]) s = tracker_step (tracker_run calls s) c"
  by (simp add: tracker_run_def)

lemma balance_kept_by_call:
  assumes "success (the_integrations c) + failed (the_integrations c) = total (the_integrations c)"
  shows "success (the_integrations (tracker_step c call))
           + failed (the_integrations (tracker_step c call))
         = total (the_integrations (tracker_step c call))"
  using assms by (cases call) (simp_all add: the_integrations_step)

text \<open>
  C4. After any sequence of \<open>startIntegration\<close>, \<open>recordSuccess\<close> and \<open>recordFailure\<close>
  calls on a new collector, in any interleaving, the counters satisfy
  \<open>success + failed = total\<close>.
\<close>

theorem counters_balance:
  "success (the_integrations (tracker_run calls new_collector))
     + failed (the_integrations (tracker_run calls new_collector))
   = total (the_integrations (tracker_run calls new_collector))"
proof (induction calls rule: rev_induct)
  case Nil
  show ?case
    by (simp add: tracker_run_def the_integrations_new_collector zero_integrations_def)
next
  case (snoc call calls)
  then show ?case
    by (simp only: tracker_run_snoc balance_kept_by_call)
qed

lemma in_progress_nonneg_step:
  assumes "0 \<le> in_progress (the_integrations c)"
  shows "0 \<le> in_progress (the_integrations (tracker_step c call))"
  using assms by (cases call) (simp_all add: the_integrations_step)

lemma in_progress_nonneg_run:
  "0 \<le> in_progress (the_integrations c) \<Longrightarrow>
   0 \<le> in_progress (the_integrations (tracker_run calls c))"
  unfolding tracker_run_def
  by (induction calls arbitrary: c) (simp_all add: in_progress_nonneg_step)

lemma in_progress_counts_open_runs:
  "completes_started_runs n calls \<Longrightarrow> in_progress (the_integrations c) = int n \<Longrightarrow>
   in_progress (the_integrations (tracker_run calls c)) = int n + int (started calls) - int (completed calls)"
  unfolding tracker_run_def
proof (induction calls arbitrary: n c)
  case Nil
  then show ?case by (simp add: started_def completed_def)
next
  case (Cons call calls)
  show ?case
  proof (cases "is_start call")
    case True
    then obtain i m t where call: "call = StartIntegration i m t" by (cases call) auto
    have "in_progress (the_integrations (tracker_step c call)) = int (Suc n)"
      using Cons.prems(2) by (simp add: call the_integrations_step)
    moreover have "completes_started_runs (Suc n) calls" using Cons.prems(1) True by simp
    ultimately have "in_progress (the_integrations (foldl tracker_step (tracker_step c call) calls))
        = int (Suc n) + int (started calls) - int (completed calls)"
      by (rule Cons.IH[rotated])
    then show ?thesis using True by (simp add: started_def completed_def)
  next
    case False
    then have pos: "n > 0" and rest: "completes_started_runs (n - 1) calls"
      using Cons.prems(1) by simp_all
    have "in_progress (the_integrations (tracker_step c call)) = int (n - 1)"
      using Cons.prems(2) pos False by (cases call) (simp_all add: the_integrations_step)
    with rest have "in_progress (the_integrations (foldl tracker_step (tracker_step c call) calls))
        = int (n - 1) + int (started calls) - int (completed calls)"
      by (rule Cons.IH)
    then show ?thesis using False pos by (simp add: started_def completed_def)
  qed
qed

text \<open>
  C5. \<open>in_progress\<close> is never negative. When every \<open>recordSuccess\<close> or \<open>recordFailure\<close>
  completes a run that was started before it, each of them takes exactly one off
  \<open>in_progress\<close>, whichever of the two it is: the counter is the number of runs started
  minus the number completed, and it is 0 once every started run has completed.
\<close>

theorem in_progress_tracks_open_runs:
  "0 \<le> in_progress (the_integrations (tracker_run calls new_collector)) \<and>
   (completes_started_runs 0 calls \<longrightarrow>
      in_progress (the_integrations (tracker_run calls new_collector))
        = int (started calls) - int (completed calls) \<and>
      (started calls = completed calls \<longrightarrow>
         in_progress (the_integrations (tracker_run calls new_collector)) = 0))"
proof -
  have z: "in_progress (the_integrations new_collector) = 0"
    by (simp add: the_integrations_new_collector zero_integrations_def)
  have a: "0 \<le> in_progress (the_integrations (tracker_run calls new_collector))"
    by (rule in_progress_nonneg_run) (simp add: z)
  have b: "in_progress (the_integrations (tracker_run calls new_collector))
        = int (started calls) - int (completed calls)" if "completes_started_runs 0 calls"
    using in_progress_counts_open_runs[OF that, of new_collector] z by simp
  show ?thesis using a b by simp
qed

theorem in_progress_tracks_open_runs_witness:
  "completes_started_runs 0 example_calls \<and> started example_calls = completed example_calls \<and>
   in_progress (the_integrations (tracker_run example_calls new_collector)) = 0"
proof -
  have w: "completes_started_runs 0 example_calls"
    by (simp add: example_calls_def)
  have e: "started example_calls = completed example_calls"
    by (simp add: example_calls_def started_def completed_def)
  from in_progress_tracks_open_runs[of example_calls] w e show ?thesis by simp
qed

section \<open>The metrics snapshot\<close>

lemma metrics_tracker_step: "metrics (tracker_step c call) = metrics c"
  by (cases call)
     (simp_all add: startIntegration_def recordSuccess_def recordFailure_def Let_def
        put_integrations_def put_performance_def put_counts_def updateDurationMetrics_def
        split: option.split)

lemma metrics_tracker_run: "metrics (tracker_run calls c) = metrics c"
  unfolding tracker_run_def
  by (induction calls arbitrary: c) (simp_all add: metrics_tracker_step)

lemma getMetrics_references:
  "integrations (getMetrics stamp up c) = integrations (metrics c)"
  "performance (getMetrics stamp up c) = performance (metrics c)"
  "errors (getMetrics stamp up c) = errors (metrics c)"
  "api_calls (getMetrics stamp up c) = api_calls (metrics c)"
  "resources (getMetrics stamp up c) = resources (metrics c)"
  by (simp_all add: getMetrics_def metrics_obj.defs)

text \<open>
  C9, as the code has it. \<open>getMetrics\<close> copies the top level only: the fields of the
  snapshot hold the references that the fields of \<open>this.metrics\<close> hold, so the snapshot
  and the collector share the nested counter objects. An assignment to a counter through
  the snapshot is an assignment to the collector's counter, and the counters read through a
  snapshot taken earlier are the collector's current counters after any later
  \<open>startIntegration\<close>, \<open>recordSuccess\<close> and \<open>recordFailure\<close> calls.
\<close>

theorem getMetrics_shares_counters:
  "metrics_obj.truncate (getMetrics stamp up c) = metrics c \<and>
   the_integrations (snapshot_assign_total (getMetrics stamp up c) v c)
     = (the_integrations c)\<lparr>total := v\<rparr> \<and>
   snapshot_integrations (getMetrics stamp up c) (tracker_run calls c)
     = the_integrations (tracker_run calls c)"
  by (simp add: snapshot_assign_total_def snapshot_integrations_def getMetrics_references
      the_integrations_def put_integrations_def metrics_tracker_run)
     (simp add: getMetrics_def metrics_obj.defs)

text \<open>
  C9 as stated fails on a new collector: assigning 99 to \<open>total\<close> through the snapshot
  makes the collector's own \<open>total\<close> 99, and a snapshot taken before a \<open>recordSuccess\<close>
  shows \<open>success = 1\<close> after it.
\<close>

theorem getMetrics_snapshot_counterexample:
  "total (the_integrations
      (snapshot_assign_total (getMetrics ''t'' 1 new_collector) 99 new_collector)) = 99 \<and>
   total (the_integrations new_collector) = 0 \<and>
   success (snapshot_integrations (getMetrics ''t'' 1 new_collector) new_collector) = 0 \<and>
   success (snapshot_integrations (getMetrics ''t'' 1 new_collector)
      (recordSuccess 5 new_collector)) = 1"
  by (simp add: snapshot_assign_total_def snapshot_integrations_def getMetrics_references
      the_integrations_def put_integrations_def new_collector_def alloc_metrics_def
      empty_store_def zero_integrations_def recordSuccess_def Let_def updateDurationMetrics_def
      put_performance_def the_performance_def)

section \<open>The conversation history\<close>

lemma slice_last_append_short:
  "slice_last n (slice_last n xs @ ys) = slice_last n (xs @ ys)"
proof -
  have "length xs + length ys - (length xs - n + n) + (length xs - n)
          = length xs + length ys - n"
    by arith
  then show ?thesis by (simp add: slice_last_def)
qed

lemma addToHistory_slice: "addToHistory u r h = slice_last 20 (h @ [(User, u), (Assistant, formatResultForHistory r)])"
  by (simp add: addToHistory_def slice_last_def Let_def)

lemma history_after_snoc:
  "history_after (calls @ [(u, r)]) = addToHistory u r (history_after calls)"
  by (simp add: history_after_def)

lemma all_exchanges_snoc:
  "all_exchanges (calls @ [(u, r)]) = all_exchanges calls @ [(User, u), (Assistant, formatResultForHistory r)]"
  by (simp add: all_exchanges_def)

lemma history_after_slice: "history_after calls = slice_last 20 (all_exchanges calls)"
proof (induction calls rule: rev_induct)
  case Nil
  show ?case by (simp add: history_after_def all_exchanges_def slice_last_def)
next
  case (snoc call calls)
  obtain u r where call: "call = (u, r)" by (cases call)
  show ?case
    unfolding call history_after_snoc all_exchanges_snoc addToHistory_slice snoc.IH
    by (rule slice_last_append_short)
qed

section \<open>The tool registry\<close>

lemma map_set_keys_present: "k \<in> fst ` set ps \<Longrightarrow> map fst (map_set k v ps) = map fst ps"
  by (induction ps) auto

lemma map_set_keys_absent: "k \<notin> fst ` set ps \<Longrightarrow> map fst (map_set k v ps) = map fst ps @ [k]"
  by (induction ps) auto

lemma map_set_mem: "(k, v) \<in> set (map_set k v ps)"
  by (induction ps) auto

lemma map_set_subset: "set (map_set k v ps) \<subseteq> insert (k, v) (set ps)"
  by (induction ps) auto

lemma map_set_distinct: "distinct (map fst ps) \<Longrightarrow> distinct (map fst (map_set k v ps))"
  by (cases "k \<in> fst ` set ps") (simp_all add: map_set_keys_present map_set_keys_absent)

lemma registry_ok_registerTool: "registry_ok reg \<Longrightarrow> registry_ok (registerTool t reg)"
  unfolding registry_ok_def registerTool_def list_all_iff
  using map_set_subset[of "name t" t reg] by (auto simp: map_set_distinct)

lemma registry_ok_register_all: "registry_ok reg \<Longrightarrow> registry_ok (register_all ts reg)"
  unfolding register_all_def
  by (induction ts arbitrary: reg) (simp_all add: registry_ok_registerTool)

lemma registry_ok_unique:
  assumes "registry_ok reg" "(k, u) \<in> set reg" "(k, u') \<in> set reg"
  shows "u = u'"
  using assms unfolding registry_ok_def by (meson eq_key_imp_eq_value)

lemma registry_names: "registry_ok reg \<Longrightarrow> map name (getRegisteredTools reg) = map fst reg"
  unfolding registry_ok_def getRegisteredTools_def list_all_iff by (induction reg) auto

text \<open>
  C3, as the code has it. \<open>registerTool\<close> has no failure: registering a tool under a name
  that is already registered keeps the list of registered names as it was, and the tool
  retrievable under that name is the new one and no other.
\<close>

theorem registerTool_overwrites:
  assumes "name t \<in> name ` set (getRegisteredTools (register_all ts []))"
  shows "map name (getRegisteredTools (registerTool t (register_all ts [])))
           = map name (getRegisteredTools (register_all ts [])) \<and>
         t \<in> set (getRegisteredTools (registerTool t (register_all ts []))) \<and>
         (\<forall>u \<in> set (getRegisteredTools (registerTool t (register_all ts []))).
            name u = name t \<longrightarrow> u = t)"
proof -
  let ?r = "register_all ts []"
  have ok: "registry_ok ?r"
    by (rule registry_ok_register_all) (simp add: registry_ok_def)
  then have ok': "registry_ok (registerTool t ?r)" by (rule registry_ok_registerTool)
  have "name t \<in> set (map name (getRegisteredTools ?r))" using assms by simp
  then have present: "name t \<in> fst ` set ?r" by (simp add: registry_names[OF ok])
  have "map name (getRegisteredTools (registerTool t ?r)) = map fst (registerTool t ?r)"
    by (rule registry_names[OF ok'])
  also have "\<dots> = map fst ?r"
    unfolding registerTool_def by (rule map_set_keys_present[OF present])
  also have "\<dots> = map name (getRegisteredTools ?r)"
    by (rule registry_names[OF ok, symmetric])
  finally have a: "map name (getRegisteredTools (registerTool t ?r))
                     = map name (getRegisteredTools ?r)" .
  have mem: "(name t, t) \<in> set (registerTool t ?r)"
    by (simp add: registerTool_def map_set_mem)
  then have b: "t \<in> set (getRegisteredTools (registerTool t ?r))"
    by (force simp: getRegisteredTools_def)
  have c: "u = t" if "u \<in> set (getRegisteredTools (registerTool t ?r))" "name u = name t" for u
  proof -
    from that(1) obtain k where k: "(k, u) \<in> set (registerTool t ?r)"
      by (auto simp: getRegisteredTools_def)
    with ok' have "k = name u" by (auto simp: registry_ok_def list_all_iff)
    with k that(2) have "(name t, u) \<in> set (registerTool t ?r)" by simp
    with mem show ?thesis using registry_ok_unique[OF ok'] by blast
  qed
  from a b c show ?thesis by blast
qed

theorem registerTool_overwrites_witness:
  "name replacement_tool
     \<in> name ` set (getRegisteredTools (register_all [parse_openapi_spec_tool] [])) \<and>
   getRegisteredTools (registerTool replacement_tool (register_all [parse_openapi_spec_tool] []))
     = [replacement_tool]"
proof -
  have n: "name replacement_tool
             \<in> name ` set (getRegisteredTools (register_all [parse_openapi_spec_tool] []))"
    by (simp add: replacement_tool_def parse_openapi_spec_tool_def register_all_def
        registerTool_def getRegisteredTools_def)
  from n registerTool_overwrites[OF n]
  show ?thesis
    by (simp add: register_all_def registerTool_def getRegisteredTools_def
        replacement_tool_def parse_openapi_spec_tool_def)
qed

text \<open>
  C3 as stated fails on the registry the constructor builds: registering another tool named
  \<open>parse_openapi_spec\<close> puts it in the place of the original, which is no longer among
  the registered reg.
\<close>

theorem registerTool_duplicate_counterexample:
  "parse_openapi_spec_tool \<in> set (getRegisteredTools (registerDefaultTools [])) \<and>
   parse_openapi_spec_tool
     \<notin> set (getRegisteredTools (registerTool replacement_tool (registerDefaultTools []))) \<and>
   hd (getRegisteredTools (registerTool replacement_tool (registerDefaultTools [])))
     = replacement_tool"
  by (simp add: registerDefaultTools_def registerTool_def getRegisteredTools_def
      replacement_tool_def parse_openapi_spec_tool_def generate_pydantic_models_tool_def
      generate_kubernetes_manifests_tool_def deploy_via_gitops_tool_def
      analyze_api_complexity_tool_def)

section \<open>The generated workflow\<close>

lemma get_JObj: "get (JObj kvs) k = (case map_of kvs k of Some x \<Rightarrow> x | None \<Rightarrow> Undefined)"
  by (simp add: get_def split: option.split)

lemma api_proxy_step_facts [simp]:
  "is_api_proxy (api_proxy_step paths e m)"
  "step_path (api_proxy_step paths e m) = JStr e"
  by (simp_all add: is_api_proxy_def step_path_def api_proxy_step_def get_JObj)

lemma other_steps_not_proxy [simp]:
  "\<not> is_api_proxy (initialize_step spec es)"
  "\<not> is_api_proxy monitor_step"
  by (simp_all add: is_api_proxy_def initialize_step_def monitor_step_def get_JObj)

lemma endpoint_steps_paths:
  assumes "endpoint_steps paths e = Inr xs"
  shows "filter is_api_proxy xs = xs \<and>
         map step_path xs = replicate (length (own_keys (get paths e))) (JStr e)"
  using assms
  by (auto simp: endpoint_steps_def object_keys_def comp_def map_replicate_const
      split: if_splits)

lemma endpoints_steps_paths:
  "endpoints_steps paths es = Inr hs \<Longrightarrow>
   filter is_api_proxy hs = hs \<and>
   map step_path hs = concat (map (\<lambda>e. replicate (length (own_keys (get paths e))) (JStr e)) es)"
proof (induction es arbitrary: hs)
  case Nil
  then show ?case by simp
next
  case (Cons e es)
  from Cons.prems obtain xs ys where
    xs: "endpoint_steps paths e = Inr xs" and ys: "endpoints_steps paths es = Inr ys"
    and hs: "hs = xs @ ys"
    by (auto split: sum.splits)
  from endpoint_steps_paths[OF xs] Cons.IH[OF ys] show ?case by (simp add: hs)
qed

lemma get_distinct_entry:
  "distinct (map fst ps) \<Longrightarrow> (p, item) \<in> set ps \<Longrightarrow> get (JObj ps) p = item"
  by (simp add: get_JObj)

lemma first_paths_items:
  assumes "distinct (map fst ps)"
  shows "map (\<lambda>e. f e (get (JObj ps) e)) (take n (map fst ps))
           = map (\<lambda>(p, item). f p item) (take n ps)"
proof -
  have "\<And>x. x \<in> set (take n ps) \<Longrightarrow> f (fst x) (get (JObj ps) (fst x)) = f (fst x) (snd x)"
    using get_distinct_entry[OF assms] by (metis in_set_takeD prod.collapse)
  then show ?thesis by (simp add: take_map case_prod_unfold)
qed

lemma generateAgentWorkflow_steps:
  assumes "generateAgentWorkflow spec models = Inr flow"
  shows "\<exists>steps. steps_of flow = steps @ [monitor_step] \<and>
           (if truthy (get spec ''paths'')
            then \<exists>hs. endpoints_steps (get spec ''paths'') (take 10 (own_keys (get spec ''paths''))) = Inr hs
                   \<and> steps = initialize_step spec (own_keys (get spec ''paths'')) # hs
            else steps = [])"
  using assms
  by (auto simp: generateAgentWorkflow_def Let_def steps_of_def get_JObj
      split: sum.splits if_splits)

text \<open>
  C10. Whenever \<open>generateAgentWorkflow\<close> returns a workflow, its last step is the
  monitoring step; and when the specification's \<open>paths\<close> is an object, the endpoint
  steps of the workflow handle, in order, the first 10 paths, once per method of the path:
  a path after the tenth has no step.
\<close>

theorem workflow_handles_first_ten_paths:
  assumes "generateAgentWorkflow spec models = Inr flow"
  shows "steps_of flow \<noteq> [] \<and> last (steps_of flow) = monitor_step \<and>
         (\<forall>ps. get spec ''paths'' = JObj ps \<and> distinct (map fst ps) \<longrightarrow>
            map step_path (filter is_api_proxy (steps_of flow))
              = concat (map (\<lambda>(p, item). replicate (length (own_keys item)) (JStr p))
                          (take 10 ps)))"
proof -
  from generateAgentWorkflow_steps[OF assms] obtain steps where
    st: "steps_of flow = steps @ [monitor_step]" and
    sh: "if truthy (get spec ''paths'')
         then \<exists>hs. endpoints_steps (get spec ''paths'') (take 10 (own_keys (get spec ''paths''))) = Inr hs
                \<and> steps = initialize_step spec (own_keys (get spec ''paths'')) # hs
         else steps = []"
    by blast
  have a: "steps_of flow \<noteq> [] \<and> last (steps_of flow) = monitor_step" by (simp add: st)
  have b: "map step_path (filter is_api_proxy (steps_of flow))
             = concat (map (\<lambda>(p, item). replicate (length (own_keys item)) (JStr p)) (take 10 ps))"
    if ps: "get spec ''paths'' = JObj ps" and d: "distinct (map fst ps)" for ps
  proof -
    from sh ps obtain hs where
      hs: "endpoints_steps (JObj ps) (take 10 (map fst ps)) = Inr hs" and
      steps: "steps = initialize_step spec (map fst ps) # hs"
      by (auto simp: own_keys_def)
    from endpoints_steps_paths[OF hs]
    have "map step_path (filter is_api_proxy (steps_of flow))
            = concat (map (\<lambda>e. replicate (length (own_keys (get (JObj ps) e))) (JStr e))
                        (take 10 (map fst ps)))"
      by (simp add: st steps)
    also have "\<dots> = concat (map (\<lambda>(p, item). replicate (length (own_keys item)) (JStr p)) (take 10 ps))"
      using first_paths_items[OF d, of "\<lambda>e item. replicate (length (own_keys item)) (JStr e)" 10]
      by simp
    finally show ?thesis .
  qed
  from a b show ?thesis by blast
qed

lemmas js_eval =
  read_prop_def nullish_def get_def opt_get_def or_else_def own_keys_def object_keys_def

lemmas string_eval =
  toLowerCase_def to_lower_char_def toUpperCase_def to_upper_char_def is_space_def
  is_alnum_def replace_non_alnum_def

lemma eleven_runs: "isl (generateAgentWorkflow eleven_paths_spec Undefined) = False"
  by (simp add: generateAgentWorkflow_def eleven_paths_spec_def eleven_paths_def item1_def
      title_slug_def endpoint_steps_def js_eval string_eval Let_def)

theorem workflow_handles_first_ten_paths_witness:
  "generateAgentWorkflow eleven_paths_spec Undefined
     = Inr (projr (generateAgentWorkflow eleven_paths_spec Undefined)) \<and>
   get eleven_paths_spec ''paths'' = JObj eleven_paths \<and> distinct (map fst eleven_paths) \<and>
   last (steps_of (projr (generateAgentWorkflow eleven_paths_spec Undefined))) = monitor_step \<and>
   map step_path
     (filter is_api_proxy (steps_of (projr (generateAgentWorkflow eleven_paths_spec Undefined))))
     = map JStr [''/a'', ''/a'', ''/b'', ''/c'', ''/d'', ''/e'', ''/f'', ''/g'', ''/h'', ''/i'', ''/j'']"
proof -
  have r: "generateAgentWorkflow eleven_paths_spec Undefined
             = Inr (projr (generateAgentWorkflow eleven_paths_spec Undefined))"
    using eleven_runs by (cases "generateAgentWorkflow eleven_paths_spec Undefined") simp_all
  have p: "get eleven_paths_spec ''paths'' = JObj eleven_paths"
    by (simp add: eleven_paths_spec_def get_def)
  have d: "distinct (map fst eleven_paths)"
    by (simp add: eleven_paths_def)
  have "concat (map (\<lambda>(p, item). replicate (length (own_keys item)) (JStr p)) (take 10 eleven_paths))
          = map JStr [''/a'', ''/a'', ''/b'', ''/c'', ''/d'', ''/e'', ''/f'', ''/g'', ''/h'', ''/i'', ''/j'']"
    by (simp add: eleven_paths_def item1_def own_keys_def)
  with workflow_handles_first_ten_paths[OF r] r p d show ?thesis by simp
qed

section \<open>Manifest validation\<close>

lemmas eff_defs = ret_def throw_def lift_def bnd_def catch_def reads_def modify_def ext_def
  current_time_def iso_now_def

lemma bnd_Inr: "m s = (Inr x, s') \<Longrightarrow> bnd m f s = f x s'"
  by (simp add: bnd_def)

lemma bnd_Inl: "m s = (Inl e, s') \<Longrightarrow> bnd m f s = (Inl e, s')"
  by (simp add: bnd_def)

lemma ext_Inr: "f (world s) = (Inr x, w) \<Longrightarrow> ext f s = (Inr x, s\<lparr>world := w\<rparr>)"
  by (simp add: ext_def)

lemma ext_Inl: "f (world s) = (Inl e, w) \<Longrightarrow> ext f s = (Inl e, s\<lparr>world := w\<rparr>)"
  by (simp add: ext_def)

lemma run_check_report: "m s = (r, s') \<Longrightarrow> run_check m s = (Inr (check_report r), s')"
  by (cases r) (simp_all add: run_check_def catch_def bnd_def ret_def check_report_def)

lemma command_outcome:
  "executeCommand env command args (world s) = (r, w) \<Longrightarrow>
   bnd (ext (executeCommand env command args)) (\<lambda>_. ret ()) s
     = (map_sum (\<lambda>e. e) (\<lambda>_. ()) r, s\<lparr>world := w\<rparr>)"
  by (cases r) (simp_all add: bnd_def ext_def ret_def)

lemma check_report_map [simp]: "check_report (map_sum (\<lambda>e. e) f r) = check_report r"
  by (cases r) (simp_all add: check_report_def)

text \<open>
  C8, as the code has it. Name the outcomes of the calls one run of \<open>validateManifests\<close>
  makes, on manifests other than \<open>undefined\<close> and \<open>null\<close>: creating the temporary
  directory, writing the manifest files, the \<open>kubeconform\<close> command, the \<open>conftest\<close>
  command, the \<open>kubectl\<close> dry runs up to the first that fails, and removing the
  directory (a call that is not made, because an earlier one threw, plays no part). When
  the directory cannot be created, a file cannot be written or the
  directory cannot be removed, the run throws that error. Otherwise it returns one report
  per check, whatever the commands did: a check whose commands succeeded is reported as
  passed with no errors, and a check whose command failed is reported as not passed, with
  the message of the error.
\<close>

theorem validateManifests_reports_checks:
  assumes "\<not> nullish manifests"
    and "tempDir = path_join env ''/tmp''
                     (''autoweave-validation-'' @ show_int (date_now env (world s)))"
    and "fs_mkdir env tempDir (world s) = (made, w1)"
    and "write_manifests env tempDir (entries (or_else (get manifests ''manifests'') manifests))
           (s\<lparr>world := w1\<rparr>) = (written, s2)"
    and "executeCommand env ''kubeconform'' [''-strict'', ''-summary'', tempDir] (world s2)
           = (kubeconform, w3)"
    and "executeCommand env ''conftest'' [''test'', tempDir] w3 = (conftest, w4)"
    and "kubectl_dry_runs env (projr written) (s2\<lparr>world := w4\<rparr>) = (kubectl, s5)"
    and "fs_rm env tempDir (world s5) = (removed, w6)"
  shows "fst (validateManifests env manifests s) =
           (case made of Inl e \<Rightarrow> Inl e | Inr dir_made \<Rightarrow>
            case written of Inl e \<Rightarrow> Inl e | Inr files \<Rightarrow>
            case removed of Inl e \<Rightarrow> Inl e | Inr dir_removed \<Rightarrow>
              Inr (JObj [(''kubeconform'', check_report kubeconform),
                         (''conftest'', check_report conftest),
                         (''kubectl'', check_report kubectl)]))"
proof -
  let ?entries = "entries (or_else (get manifests ''manifests'') manifests)"
  let ?m1 = "bnd (ext (executeCommand env ''kubeconform'' [''-strict'', ''-summary'', tempDir]))
               (\<lambda>_. ret ())"
  let ?m2 = "bnd (ext (executeCommand env ''conftest'' [''test'', tempDir])) (\<lambda>_. ret ())"
  have t: "current_time env s = (Inr (date_now env (world s)), s)"
    by (simp add: current_time_def reads_def)
  have mk: "ext (fs_mkdir env tempDir) s = (made, s\<lparr>world := w1\<rparr>)"
    using assms(3) by (simp add: ext_def)
  let ?s1 = "s\<lparr>world := w1\<rparr>"
  have rd: "lift (read_prop manifests ''manifests'') ?s1 = (Inr (get manifests ''manifests''), ?s1)"
    using assms(1) by (simp add: lift_def read_prop_def)
  note wr = assms(4)
  have k: "run_check ?m1 s2 = (Inr (check_report kubeconform), s2\<lparr>world := w3\<rparr>)"
    using run_check_report[where m = ?m1, OF command_outcome[OF assms(5)]] by simp
  have c: "run_check ?m2 (s2\<lparr>world := w3\<rparr>) = (Inr (check_report conftest), s2\<lparr>world := w4\<rparr>)"
    using run_check_report[where m = ?m2 and s = "s2\<lparr>world := w3\<rparr>"]
      command_outcome[of env "''conftest''" "[''test'', tempDir]"
        "s2\<lparr>world := w3\<rparr>" conftest w4] assms(6) by simp
  have rm: "ext (fs_rm env tempDir) s5 = (removed, s5\<lparr>world := w6\<rparr>)"
    using assms(8) by (simp add: ext_def)
  have start: "validateManifests env manifests s
      = bnd (ext (fs_mkdir env tempDir)) (\<lambda>_.
        bnd (lift (read_prop manifests ''manifests'')) (\<lambda>inner.
        bnd (write_manifests env tempDir (entries (or_else inner manifests))) (\<lambda>manifestFiles.
        bnd (run_check ?m1) (\<lambda>kubeconform.
        bnd (run_check ?m2) (\<lambda>conftest.
        bnd (run_check (kubectl_dry_runs env manifestFiles)) (\<lambda>kubectl.
        bnd (ext (fs_rm env tempDir)) (\<lambda>_.
        ret (JObj [(''kubeconform'', kubeconform), (''conftest'', conftest),
                   (''kubectl'', kubectl)])))))))) s"
    unfolding validateManifests_def Let_def assms(2)
    by (simp only: bnd_Inr[where m = "current_time env", OF t])
  show ?thesis
  proof (cases made)
    case (Inl e)
    with mk show ?thesis unfolding start by (simp add: bnd_Inl[where m = "ext (fs_mkdir env tempDir)"])
  next
    case made_ok: (Inr dir_made)
    show ?thesis
    proof (cases written)
      case (Inl e)
      with mk made_ok rd wr show ?thesis
        unfolding start
        by (simp only: bnd_Inr[where m = "ext (fs_mkdir env tempDir)"]
            bnd_Inr[where m = "lift (read_prop manifests ''manifests'')", OF rd]
            bnd_Inl[where m = "write_manifests env tempDir ?entries"]) simp
    next
      case written_ok: (Inr files)
      from assms(7) written_ok
      have u: "run_check (kubectl_dry_runs env files) (s2\<lparr>world := w4\<rparr>)
                 = (Inr (check_report kubectl), s5)"
        using run_check_report[where m = "kubectl_dry_runs env files"] by simp
      have "validateManifests env manifests s
              = bnd (ext (fs_rm env tempDir)) (\<lambda>_.
                  ret (JObj [(''kubeconform'', check_report kubeconform),
                             (''conftest'', check_report conftest),
                             (''kubectl'', check_report kubectl)])) s5"
        using mk made_ok wr written_ok
        unfolding start
        by (simp only: bnd_Inr[where m = "ext (fs_mkdir env tempDir)"]
            bnd_Inr[where m = "lift (read_prop manifests ''manifests'')", OF rd]
            bnd_Inr[where m = "write_manifests env tempDir ?entries"]
            bnd_Inr[where m = "run_check ?m1", OF k] bnd_Inr[where m = "run_check ?m2", OF c]
            bnd_Inr[where m = "run_check (kubectl_dry_runs env files)", OF u])
      with rm made_ok written_ok show ?thesis
        by (cases removed) (simp_all add: bnd_def ret_def)
    qed
  qed
qed

theorem validateManifests_reports_checks_witness:
  "\<not> nullish three_manifests \<and>
   fst (validateManifests kubectl_fails three_manifests (new_module 0))
     = Inr (JObj [(''kubeconform'', JObj [(''passed'', JBool True), (''errors'', JArr [])]),
                  (''conftest'', JObj [(''passed'', JBool True), (''errors'', JArr [])]),
                  (''kubectl'', JObj [(''passed'', JBool False),
                     (''errors'', JArr [JStr ''Command failed with code 1: no such cluster''])])])"
proof -
  have a: "\<not> nullish three_manifests" by (simp add: three_manifests_def nullish_def)
  from validateManifests_reports_checks[OF a refl surjective_pairing surjective_pairing
      surjective_pairing surjective_pairing surjective_pairing surjective_pairing,
      of kubectl_fails "new_module 0"] a
  show ?thesis
    by (simp add: kubectl_fails_def kubectl_error_def calm_env_def three_manifests_def
        new_module_def check_report_def get_def or_else_def Let_def bnd_def ext_def ret_def)
qed

lemmas calm_eval = calm_env_def eff_defs Let_def read_prop_def nullish_def get_def or_else_def

text \<open>
  C8 as stated fails when \<open>fs.mkdir\<close> fails: the outer \<open>catch\<close> throws the error
  again.
\<close>

theorem validateManifests_throws_counterexample:
  "fst (validateManifests mkdir_denied three_manifests (new_module 0))
     = Inl (Error ''Error'' ''EACCES: permission denied, mkdir'')"
  by (simp add: validateManifests_def mkdir_denied_def calm_eval)

section \<open>What the stages leave alone\<close>

lemma preservesD: "preserves g m \<Longrightarrow> m s = (r, s') \<Longrightarrow> g s' = g s"
  by (metis preserves_def snd_conv)

lemma preserves_ret [intro!, simp]: "preserves g (ret x)"
  and preserves_throw [intro!, simp]: "preserves g (throw e)"
  and preserves_lift [intro!, simp]: "preserves g (lift r)"
  and preserves_reads [intro!, simp]: "preserves g (reads f)"
  by (simp_all add: preserves_def ret_def throw_def lift_def reads_def)

lemma preserves_bnd [intro!]:
  assumes "preserves g m" "\<And>x. preserves g (f x)"
  shows "preserves g (bnd m f)"
  using assms unfolding preserves_def bnd_def
  by (auto split: prod.splits sum.splits) (metis snd_conv)+

lemma preserves_catch [intro!]:
  assumes "preserves g m" "\<And>e. preserves g (h e)"
  shows "preserves g (catch m h)"
  using assms unfolding preserves_def catch_def
  by (auto split: prod.splits sum.splits) (metis snd_conv)+

lemma preserves_if [intro!]:
  "(b \<Longrightarrow> preserves g m) \<Longrightarrow> (\<not> b \<Longrightarrow> preserves g n) \<Longrightarrow> preserves g (if b then m else n)"
  by simp

lemma preserves_modify: "(\<And>s. g (f s) = g s) \<Longrightarrow> preserves g (modify f)"
  by (simp add: preserves_def modify_def)

lemma inner_fields [simp]:
  "inner metricsCollector" "inner llm_calls" "inner conversationHistory" "inner tools"
  by (simp_all add: inner_def)

lemma preserves_ext [intro!]: "inner g \<Longrightarrow> preserves g (ext f)"
  by (simp add: preserves_def ext_def inner_def split: prod.splits)

lemma preserves_clock [intro!, simp]:
  "preserves g (current_time env)" "preserves g (iso_now env)"
  by (simp_all add: current_time_def iso_now_def)

lemma preserves_or_await [intro!]: "preserves g m \<Longrightarrow> preserves g (or_await a m)"
  by (simp add: or_await_def)

lemma preserves_generateKubernetesManifests [intro!]:
  assumes "inner g"
  shows "preserves g (generateKubernetesManifests env options)"
  unfolding generateKubernetesManifests_def Let_def
  using assms
  by (intro preserves_bnd preserves_lift preserves_ret preserves_ext preserves_clock
      preserves_reads preserves_modify) (simp_all add: inner_def)

lemma preserves_write_manifests [intro!]:
  "inner g \<Longrightarrow> preserves g (write_manifests env dir kvs)"
  by (induction kvs) (auto simp: Let_def)

lemma preserves_kubectl_dry_runs [intro!]:
  "inner g \<Longrightarrow> preserves g (kubectl_dry_runs env files)"
  by (induction files) auto

lemma preserves_run_check [intro!]:
  "preserves g m \<Longrightarrow> preserves g (run_check m)"
  unfolding run_check_def by auto

lemma preserves_validateManifests [intro!]:
  "inner g \<Longrightarrow> preserves g (validateManifests env manifests)"
  unfolding validateManifests_def Let_def by auto

lemma preserves_executeTool [intro!]:
  "inner g \<Longrightarrow> preserves g (executeTool env fc ctx)"
  unfolding executeTool_def executeOpenAPIParser_def executePydanticGenerator_def
    executeManifestGenerator_def executeGitOpsDeployment_def executeComplexityAnalyzer_def
    Let_def
  by auto

lemma preserves_processResponse [intro!]:
  "inner g \<Longrightarrow> preserves g (processResponse env reply ctx)"
  unfolding processResponse_def by (auto split: option.splits)

lemma collector_send_request [intro!, simp]:
  "preserves metricsCollector (send_request env request)"
  by (simp add: preserves_def send_request_def)

lemma collector_orchestrate [intro!, simp]:
  "preserves metricsCollector (orchestrate env input ctx)"
  unfolding orchestrate_def buildMessages_def
  by (auto intro!: preserves_modify)

lemma collector_planIntegration [intro!, simp]:
  "preserves metricsCollector (planIntegration env request ctx)"
  unfolding planIntegration_def by auto

lemma collector_integration_steps:
  "preserves metricsCollector (integration_steps env options)"
  unfolding integration_steps_def deploy_step_def by auto

section \<open>The history across orchestrate calls\<close>

lemma orchestrate_history:
  assumes "orchestrate env input ctx s = (r, s')"
  shows "conversationHistory s' =
           (case r of Inl e \<Rightarrow> conversationHistory s
                    | Inr x \<Rightarrow> addToHistory input x (conversationHistory s))"
proof -
  have pr: "\<And>reply t x t'. processResponse env reply ctx t = (x, t') \<Longrightarrow>
              conversationHistory t' = conversationHistory t"
    by (rule preservesD[OF preserves_processResponse]) simp
  show ?thesis
    using assms
    by (auto simp: orchestrate_def buildMessages_def send_request_def bnd_def lift_def
        reads_def ret_def modify_def split: sum.splits prod.splits dest!: pr)
qed

lemma orchestrate_all_history:
  "conversationHistory s = history_after finished \<Longrightarrow>
   conversationHistory (orchestrate_all env calls s)
     = history_after (finished @ returned_calls env calls s)"
proof (induction calls arbitrary: s finished)
  case Nil
  then show ?case by simp
next
  case (Cons call calls)
  obtain input ctx where call: "call = (input, ctx)" by (cases call)
  obtain r s' where run: "orchestrate env input ctx s = (r, s')"
    by (cases "orchestrate env input ctx s")
  show ?case
  proof (cases r)
    case (Inl e)
    with orchestrate_history[OF run] Cons.prems
    have "conversationHistory s' = history_after finished" by simp
    from Cons.IH[OF this] show ?thesis by (simp add: call run Inl)
  next
    case (Inr x)
    with orchestrate_history[OF run] Cons.prems
    have "conversationHistory s' = history_after (finished @ [(input, x)])"
      by (simp add: history_after_snoc)
    from Cons.IH[OF this] show ?thesis by (simp add: call run Inr)
  qed
qed

text \<open>
  C6. After any number of \<open>orchestrate\<close> calls on a new module, whatever the service and
  the collaborators do, the conversation history has at most 20 entries, and it is the
  last 20 of the entries of the calls that returned, in order: the oldest are the ones
  dropped.
\<close>

theorem history_bounded:
  "length (conversationHistory (orchestrate_all env calls (new_module w))) \<le> 20 \<and>
   conversationHistory (orchestrate_all env calls (new_module w))
     = drop (length (all_exchanges (returned_calls env calls (new_module w))) - 20)
         (all_exchanges (returned_calls env calls (new_module w)))"
proof -
  have "conversationHistory (new_module w) = history_after []"
    by (simp add: new_module_def history_after_def)
  from orchestrate_all_history[OF this]
  have "conversationHistory (orchestrate_all env calls (new_module w))
          = history_after (returned_calls env calls (new_module w))"
    by simp
  then show ?thesis by (simp add: history_after_slice slice_last_def)
qed

section \<open>Failed runs and the metrics\<close>

lemma falsy_without_options: "nullish options \<Longrightarrow> \<not> truthy (get options k)"
  by (auto simp: nullish_def get_def)

text \<open>
  C2, as the code has it. Whatever way \<open>createIntegrationAgent\<close> ends, the collector
  records it once. When it throws with a truthy \<open>openapi_url\<close>, the collector has had
  exactly \<open>startIntegration\<close> and then \<open>recordFailure\<close>, with the error thrown and the
  time the run took, applied to it; when it returns, exactly \<open>startIntegration\<close> and then
  \<open>recordSuccess\<close>. When it throws without a truthy \<open>openapi_url\<close>, the collector is as
  it was: no run was started and no failure recorded.
\<close>

theorem run_outcome_is_recorded:
  assumes "createIntegrationAgent env options s = (r, s')"
  shows "metricsCollector s' =
           (let t = date_now env (world s);
                took = date_now env (world s') - t;
                started = snd (startIntegration (Some (''integration-'' @ show_int t)) options t
                                 (metricsCollector s))
            in case r of
                 Inl e \<Rightarrow> if truthy (get options ''openapi_url'')
                          then recordFailure took e started
                          else metricsCollector s
               | Inr x \<Rightarrow> recordSuccess took started)"
proof (cases "truthy (get options ''openapi_url'')")
  case False
  then show ?thesis
    using assms
    by (auto simp: createIntegrationAgent_def bnd_def current_time_def reads_def lift_def
        throw_def read_prop_def Let_def split: if_splits)
next
  case True
  then have opts: "\<not> nullish options" using falsy_without_options by blast
  let ?t = "date_now env (world s)"
  let ?s1 = "s\<lparr>metricsCollector :=
               snd (startIntegration (Some (''integration-'' @ show_int ?t)) options ?t
                      (metricsCollector s))\<rparr>"
  obtain x s2 where steps: "integration_steps env options ?s1 = (x, s2)"
    by (cases "integration_steps env options ?s1")
  from preservesD[OF collector_integration_steps steps]
  have frame: "metricsCollector s2 = metricsCollector ?s1" .
  show ?thesis
  proof (cases x)
    case (Inl err)
    with assms True opts steps have "r = Inl err"
      and "s' = s2\<lparr>metricsCollector :=
                   recordFailure (date_now env (world s2) - ?t) err (metricsCollector s2)\<rparr>"
      by (auto simp: createIntegrationAgent_def bnd_def catch_def current_time_def reads_def
          lift_def throw_def modify_def read_prop_def)
    with frame True show ?thesis by (simp add: Let_def)
  next
    case (Inr res)
    with assms True opts steps have "\<exists>y. r = Inr y"
      and "s' = s2\<lparr>metricsCollector :=
                   recordSuccess (date_now env (world s2) - ?t) (metricsCollector s2)\<rparr>"
      by (auto simp: createIntegrationAgent_def bnd_def catch_def current_time_def reads_def
          lift_def throw_def modify_def read_prop_def iso_now_def ret_def Let_def)
    with frame True show ?thesis by (auto simp: Let_def)
  qed
qed

lemmas eff_eval = eff_defs or_await_def

lemmas orchestrate_eval = orchestrate_def buildMessages_def send_request_def
  processResponse_def planIntegration_def result_of_def

lemmas run_eval = createIntegrationAgent_def integration_steps_def deploy_step_def
  calm_env_def billing_options_def new_module_def eff_eval js_eval orchestrate_eval Let_def
  generateKubernetesManifests_def generateAgentWorkflow_def title_slug_def
  generateIntegrationManifests_def validateManifests_def run_check_def spread_def
  string_eval

lemma parse_fails_run:
  "fst (createIntegrationAgent parse_fails billing_options (new_module 0)) = Inl parse_error"
  by (simp add: createIntegrationAgent_def integration_steps_def parse_fails_def calm_env_def
      billing_options_def new_module_def eff_eval js_eval orchestrate_eval Let_def)

theorem run_outcome_is_recorded_witness:
  "createIntegrationAgent parse_fails billing_options (new_module 0)
     = (Inl parse_error, snd (createIntegrationAgent parse_fails billing_options (new_module 0))) \<and>
   truthy (get billing_options ''openapi_url'') \<and>
   the_integrations (metricsCollector
      (snd (createIntegrationAgent parse_fails billing_options (new_module 0))))
     = \<lparr>total = 1, success = 0, failed = 1, in_progress = 0\<rparr>"
proof -
  have run: "createIntegrationAgent parse_fails billing_options (new_module 0)
     = (Inl parse_error, snd (createIntegrationAgent parse_fails billing_options (new_module 0)))"
    using parse_fails_run by (metis prod.collapse)
  have url: "truthy (get billing_options ''openapi_url'')"
    by (simp add: billing_options_def get_def)
  have start: "metricsCollector (new_module 0) = new_collector"
    by (simp add: new_module_def)
  from run_outcome_is_recorded[OF run] url
  have "the_integrations (metricsCollector
            (snd (createIntegrationAgent parse_fails billing_options (new_module 0))))
          = \<lparr>total = 1, success = 0, failed = 1, in_progress = 0\<rparr>"
    by (simp add: start the_integrations_step the_integrations_new_collector
        zero_integrations_def Let_def)
  with run url show ?thesis by simp
qed

text \<open>
  C2 as stated fails for options without \<open>openapi_url\<close>: the error reaches the caller and
  the collector is still the new one, with no failure counted.
\<close>

theorem missing_url_not_recorded_counterexample:
  "fst (createIntegrationAgent calm_env no_url_options (new_module 0))
     = Inl (Error ''Error'' ''Missing required parameter: openapi_url'') \<and>
   metricsCollector (snd (createIntegrationAgent calm_env no_url_options (new_module 0)))
     = new_collector"
  by (simp add: createIntegrationAgent_def no_url_options_def new_module_def eff_eval js_eval)

text \<open>
  An error that is not thrown is not a failed run. When the model generator fails inside the
  tool that the reasoning service selected, \<open>executeTool\<close> catches the error and returns
  an object describing it, the run takes that object for the models and goes on, and it is
  recorded as a success.
\<close>

lemma error_inside_tool_is_not_thrown:
  "isl (fst (createIntegrationAgent models_tool_fails billing_options (new_module 0))) = False \<and>
   pydanticModels (projr (fst (createIntegrationAgent models_tool_fails billing_options
                                 (new_module 0))))
     = JObj [(''success'', JBool False), (''error'', JStr (message models_error)),
             (''tool'', JStr ''generate_pydantic_models''), (''arguments'', JObj [])] \<and>
   the_integrations (metricsCollector
      (snd (createIntegrationAgent models_tool_fails billing_options (new_module 0))))
     = \<lparr>total = 1, success = 1, failed = 0, in_progress = 0\<rparr>"
  by (simp add: models_tool_fails_def models_error_def run_eval executeTool_def
      executePydanticGenerator_def agents_of_def orchestrationContext_def with_data_def
      the_integrations_def recordSuccess_def startIntegration_def new_collector_def
      alloc_metrics_def empty_store_def put_integrations_def updateDurationMetrics_def
      put_performance_def the_performance_def zero_integrations_def zero_performance_def
      set_add_def)

section \<open>Runs without a deployment target\<close>








lemma adds_if: "adds n a \<Longrightarrow> adds n b \<Longrightarrow> adds n (if c then a else b)"
  by simp














text \<open>Putting another deployer in place of the one of the surroundings.\<close>

lemma other_deployer_basic [simp]:
  "current_time (env\<lparr>deployToGitOps := d\<rparr>) = current_time env"
  "iso_now (env\<lparr>deployToGitOps := d\<rparr>) = iso_now env"
  "generateIntegrationManifests (env\<lparr>deployToGitOps := d\<rparr>) = generateIntegrationManifests env"
  "send_request (env\<lparr>deployToGitOps := d\<rparr>) = send_request env"
  "buildMessages (env\<lparr>deployToGitOps := d\<rparr>) = buildMessages env"
  "response_text (env\<lparr>deployToGitOps := d\<rparr>) = response_text env"
  by (simp_all add: current_time_def iso_now_def generateIntegrationManifests_def
      send_request_def buildMessages_def response_text_def fun_eq_iff
      split: orch_result.splits)

lemma other_deployer_estimates [simp]:
  "estimateIntegrationDuration (env\<lparr>deployToGitOps := d\<rparr>) = estimateIntegrationDuration env"
  "identifyRequiredResources (env\<lparr>deployToGitOps := d\<rparr>) = identifyRequiredResources env"
  by (simp_all add: estimateIntegrationDuration_def identifyRequiredResources_def fun_eq_iff)

lemma other_deployer_generateKubernetesManifests [simp]:
  "generateKubernetesManifests (env\<lparr>deployToGitOps := d\<rparr>) = generateKubernetesManifests env"
  by (simp add: generateKubernetesManifests_def fun_eq_iff)

lemma other_deployer_write_manifests [simp]:
  "write_manifests (env\<lparr>deployToGitOps := d\<rparr>) dir kvs = write_manifests env dir kvs"
  by (induction kvs) auto

lemma other_deployer_kubectl_dry_runs [simp]:
  "kubectl_dry_runs (env\<lparr>deployToGitOps := d\<rparr>) files = kubectl_dry_runs env files"
  by (induction files) auto

lemma other_deployer_validateManifests [simp]:
  "validateManifests (env\<lparr>deployToGitOps := d\<rparr>) = validateManifests env"
  by (simp add: validateManifests_def fun_eq_iff)

lemma other_deployer_tools [simp]:
  "executeOpenAPIParser (env\<lparr>deployToGitOps := d\<rparr>) = executeOpenAPIParser env"
  "executePydanticGenerator (env\<lparr>deployToGitOps := d\<rparr>) = executePydanticGenerator env"
  "executeManifestGenerator (env\<lparr>deployToGitOps := d\<rparr>) = executeManifestGenerator env"
  "executeComplexityAnalyzer (env\<lparr>deployToGitOps := d\<rparr>) = executeComplexityAnalyzer env"
  by (simp_all add: executeOpenAPIParser_def executePydanticGenerator_def
      executeManifestGenerator_def executeComplexityAnalyzer_def fun_eq_iff)









section \<open>Runs with a reasoning service that gives no tool call\<close>

























end
